theory Spec2Isabelle
  imports Main "HOL-Library.Char_ord" "HOL-Library.List_Lexorder"
begin

section \<open>RDF terms and the graph queries the loaders use\<close>

text \<open>
  An rdflib literal, as far as the loaders read it: its text (\<open>str(literal)\<close>), its
  language tag (\<open>literal.language\<close>, \<open>None\<close> when untagged) and, for the AGROVOC
  date, what \<open>literal.toPython().replace(tzinfo=None).isoformat()\<close> gives:
  \<open>Some s\<close> when the Python value is a datetime, \<open>None\<close> when it is not (the
  call then raises a TypeError).
\<close>

record Literal =
  lexical :: string
  language :: "string option"
  isoformat :: "string option"

datatype node = URIRef string | BNode string | Lit Literal

text \<open>A graph is its triples (subject, predicate, object), in iteration order.\<close>

type_synonym Graph = "(node \<times> node \<times> node) list"

datatype error =
    CommandError string
  | UniquenessError
  | IndexError
  | AttributeError
  | TypeError
  | SaveError

fun str :: "node \<Rightarrow> string" where
  "str (URIRef u) = u"
| "str (BNode b) = b"
| "str (Lit l) = lexical l"

definition objects :: "Graph \<Rightarrow> node \<Rightarrow> node \<Rightarrow> node list" where
  "objects g s p = map (\<lambda>t. snd (snd t)) (filter (\<lambda>t. fst t = s \<and> fst (snd t) = p) g)"

text \<open>The predicates of a subject's triples, each once, in the order of their first
  triple.\<close>

definition predicates_of :: "Graph \<Rightarrow> node \<Rightarrow> node list" where
  "predicates_of g s =
     rev (remdups (rev (map (\<lambda>t. fst (snd t)) (filter (\<lambda>t. fst t = s) g))))"

text \<open>\<open>g.objects(subject)\<close> with no predicate: the store walks the subject's predicates
  and, under each, its objects, so the objects come grouped by predicate.\<close>

definition objects_any :: "Graph \<Rightarrow> node \<Rightarrow> node list" where
  "objects_any g s = concat (map (\<lambda>p. objects g s p) (predicates_of g s))"

definition subjects :: "Graph \<Rightarrow> node \<Rightarrow> node \<Rightarrow> node list" where
  "subjects g p ob = map fst (filter (\<lambda>t. fst (snd t) = p \<and> snd (snd t) = ob) g)"

text \<open>\<open>g.value(subject, predicate, None)\<close>: the first object, \<open>None\<close> when there is none
  (the caller's \<open>default=\<close> is applied where the call is made).\<close>

definition graph_value :: "Graph \<Rightarrow> node \<Rightarrow> node \<Rightarrow> node option" where
  "graph_value g s p = (case objects g s p of [] \<Rightarrow> None | x # _ \<Rightarrow> Some x)"

text \<open>\<open>g.value(None, predicate, object, any=False)\<close>: \<open>None\<close> without a match, the
  subject when it is the only one, a UniquenessError when a second one follows.\<close>

definition graph_value_unique :: "Graph \<Rightarrow> node \<Rightarrow> node \<Rightarrow> error + node option" where
  "graph_value_unique g p ob =
     (case subjects g p ob of
        [] \<Rightarrow> Inr None
      | [x] \<Rightarrow> Inr (Some x)
      | _ \<Rightarrow> Inl UniquenessError)"

text \<open>\<open>Literal(x)\<close> for what \<open>g.value\<close> returned: a literal keeps its text and tag,
  anything else becomes an untagged plain literal of its text.\<close>

fun as_Literal :: "node option \<Rightarrow> Literal" where
  "as_Literal (Some (Lit l)) = l"
| "as_Literal (Some n) = \<lparr>lexical = str n, language = None, isoformat = None\<rparr>"
| "as_Literal None = \<lparr>lexical = ''None'', language = None, isoformat = None\<rparr>"

definition RDF_type :: node where
  "RDF_type = URIRef ''http://www.w3.org/1999/02/22-rdf-syntax-ns#type''"

definition RDFS_label :: node where
  "RDFS_label = URIRef ''http://www.w3.org/2000/01/rdf-schema#label''"

definition SKOS_ConceptScheme :: node where
  "SKOS_ConceptScheme = URIRef ''http://www.w3.org/2004/02/skos/core#ConceptScheme''"

definition SKOS_Concept :: node where
  "SKOS_Concept = URIRef ''http://www.w3.org/2004/02/skos/core#Concept''"

definition SKOS_inScheme :: node where
  "SKOS_inScheme = URIRef ''http://www.w3.org/2004/02/skos/core#inScheme''"

definition SKOS_prefLabel :: node where
  "SKOS_prefLabel = URIRef ''http://www.w3.org/2004/02/skos/core#prefLabel''"

definition DC_description :: node where
  "DC_description = URIRef ''http://purl.org/dc/elements/1.1/description''"

definition DCTERMS_modified :: node where
  "DCTERMS_modified = URIRef ''http://purl.org/dc/terms/modified''"

definition DCTERMS_issued :: node where
  "DCTERMS_issued = URIRef ''http://purl.org/dc/terms/issued''"

definition SKOS_XL_prefLabel :: node where
  "SKOS_XL_prefLabel = URIRef ''http://www.w3.org/2008/05/skos-xl#prefLabel''"

definition SKOS_XL_literalForm :: node where
  "SKOS_XL_literalForm = URIRef ''http://www.w3.org/2008/05/skos-xl#literalForm''"

definition AGROVOC_ConceptSchemeURI :: node where
  "AGROVOC_ConceptSchemeURI = URIRef ''http://aims.fao.org/aos/agrovoc''"

definition SUPPORTED_LANGUAGES :: "string list" where
  "SUPPORTED_LANGUAGES = [''fr'', ''de'', ''en'', ''it'', ''es'']"

section \<open>Case folding\<close>

text \<open>\<open>str.lower()\<close>, a \<open>char\<close> being a code point below 256: the capitals are
  \<open>A\<close> to \<open>Z\<close> and the Latin-1 capitals U+00C0 to U+00DE without the multiplication sign
  U+00D7, and each has its small letter 32 places further on; every other code point
  below 256 is left as it is.\<close>

definition lower_char :: "char \<Rightarrow> char" where
  "lower_char c =
     (if (CHR ''A'' \<le> c \<and> c \<le> CHR ''Z'')
         \<or> (CHR 0xC0 \<le> c \<and> c \<le> CHR 0xDE \<and> c \<noteq> CHR 0xD7)
      then char_of (of_char c + (32::nat)) else c)"

definition lower :: "string \<Rightarrow> string" where
  "lower s = map lower_char s"

definition apply_lower_case :: "string \<Rightarrow> bool \<Rightarrow> string" where
  "apply_lower_case v lower_case = (if lower_case then lower v else v)"

text \<open>The same function called on \<open>literal.language\<close>, which may be \<open>None\<close>:
  \<open>None.lower()\<close> raises an AttributeError.\<close>

definition apply_lower_case_language :: "string option \<Rightarrow> bool \<Rightarrow> error + string option" where
  "apply_lower_case_language v lower_case =
     (if lower_case then (case v of None \<Rightarrow> Inl AttributeError | Some t \<Rightarrow> Inr (Some (lower t)))
      else Inr v)"

section \<open>The language selector\<close>

definition language_key :: "Literal \<Rightarrow> string" where
  "language_key literal = (case language literal of None \<Rightarrow> [] | Some t \<Rightarrow> t)"

text \<open>\<open>tag.split("-")[0]\<close>\<close>

definition primary_subtag :: "string \<Rightarrow> string" where
  "primary_subtag t = takeWhile (\<lambda>c. c \<noteq> CHR ''-'') t"

text \<open>The \<open>for item in sorted_lang\<close> loop: \<open>Some\<close> is a \<open>return\<close> from inside it.\<close>

fun scan_sorted_lang :: "Literal list \<Rightarrow> string \<Rightarrow> string option" where
  "scan_sorted_lang [] default_lang = None"
| "scan_sorted_lang (item # rest) default_lang =
     (case language item of
        None \<Rightarrow> Some (lexical item)
      | Some t \<Rightarrow>
          if primary_subtag t = default_lang then Some (lexical item)
          else scan_sorted_lang rest default_lang)"

definition value_for_language :: "Literal list \<Rightarrow> string \<Rightarrow> error + string" where
  "value_for_language available default_lang =
     (let sorted_lang = sort_key language_key available
      in case scan_sorted_lang sorted_lang default_lang of
           Some s \<Rightarrow> Inr s
         | None \<Rightarrow> (case available of [] \<Rightarrow> Inl IndexError | x # _ \<Rightarrow> Inr (lexical x)))"

section \<open>The SKOS-XL canonical label (AGROVOC)\<close>

fun scan_preflabels :: "Graph \<Rightarrow> node list \<Rightarrow> string \<Rightarrow> string option" where
  "scan_preflabels g [] default_lang = None"
| "scan_preflabels g (label # rest) default_lang =
     (let pref_label = as_Literal (graph_value g label SKOS_XL_literalForm)
      in if language pref_label = Some default_lang then Some (lexical pref_label)
         else scan_preflabels g rest default_lang)"

definition get_default_language_preflabel :: "Graph \<Rightarrow> node \<Rightarrow> string \<Rightarrow> string option" where
  "get_default_language_preflabel g concept default_lang =
     scan_preflabels g (objects g concept SKOS_XL_prefLabel) default_lang"

section \<open>The SKOS preferred label (GEMET)\<close>

text \<open>The language filter: \<open>None\<close> keeps every object, the empty string keeps the
  untagged literals, any other \<open>lang\<close> the literals tagged exactly \<open>lang\<close>. Reading
  \<open>.language\<close> of an object that is not a literal raises an AttributeError.\<close>

fun langfilter :: "string option \<Rightarrow> node \<Rightarrow> error + bool" where
  "langfilter None l = Inr True"
| "langfilter (Some lang) (Lit l) =
     Inr (if lang = [] then language l = None else language l = Some lang)"
| "langfilter (Some lang) l = Inl AttributeError"

text \<open>\<open>list(filter(langfilter, ...))\<close>, stopping at the first object on which the
  filter raises.\<close>

fun filter_labels :: "string option \<Rightarrow> node list \<Rightarrow> error + node list" where
  "filter_labels lang [] = Inr []"
| "filter_labels lang (l # ls) =
     (case langfilter lang l of
        Inl e \<Rightarrow> Inl e
      | Inr keep \<Rightarrow>
          (case filter_labels lang ls of
             Inl e \<Rightarrow> Inl e
           | Inr rest \<Rightarrow> Inr (if keep then l # rest else rest)))"

fun preferredLabel ::
  "Graph \<Rightarrow> node \<Rightarrow> string option \<Rightarrow> (node \<times> node) list \<Rightarrow> node list
     \<Rightarrow> error + (node \<times> node) list" where
  "preferredLabel g subject lang default_val [] = Inr default_val"
| "preferredLabel g subject lang default_val (labelProp # props) =
     (case filter_labels lang (objects g subject labelProp) of
        Inl e \<Rightarrow> Inl e
      | Inr labels \<Rightarrow>
          if length labels = 0 then preferredLabel g subject lang default_val props
          else Inr (map (\<lambda>l. (labelProp, l)) labels))"

definition label_properties :: "node list" where
  "label_properties = [SKOS_prefLabel, RDFS_label]"

section \<open>The persistence sink and the error stream\<close>

record Thesaurus =
  "identifier" :: string
  description :: string
  title :: string
  about :: string
  date :: string

record ThesaurusKeyword =
  thesaurus :: Thesaurus
  tk_about :: string
  alt_label :: string

record ThesaurusKeywordLabel =
  keyword :: ThesaurusKeyword
  lang :: string
  label :: string

datatype row =
    ThesaurusRow Thesaurus
  | KeywordRow ThesaurusKeyword
  | LabelRow ThesaurusKeywordLabel

datatype level = SUCCESS | WARNING | ERROR

text \<open>A line written to \<open>self.stderr\<close> with its style, or printed to stdout.\<close>

datatype out_line = Stderr level string | Stdout string

text \<open>The rows saved so far and the output written so far.\<close>

record world =
  db :: "row list"
  out :: "out_line list"

text \<open>The sink decides, from the rows it holds, whether saving a row raises.\<close>

type_synonym sink = "row list \<Rightarrow> row \<Rightarrow> bool"

definition save :: "sink \<Rightarrow> row \<Rightarrow> world \<Rightarrow> error + world" where
  "save rejects r w =
     (if rejects (db w) r then Inl SaveError else Inr (w\<lparr>db := db w @ [r]\<rparr>))"

definition stderr_write :: "level \<Rightarrow> string \<Rightarrow> world \<Rightarrow> world" where
  "stderr_write lv msg w = w\<lparr>out := out w @ [Stderr lv msg]\<rparr>"

definition stdout_print :: "string \<Rightarrow> world \<Rightarrow> world" where
  "stdout_print msg w = w\<lparr>out := out w @ [Stdout msg]\<rparr>"

datatype input_file = Path string | UploadedFile string

fun file_name :: "input_file \<Rightarrow> string" where
  "file_name (Path p) = p"
| "file_name (UploadedFile n) = n"

text \<open>The decimal digits of a number, for \<open>f"({i})"\<close>.\<close>

fun str_nat :: "nat \<Rightarrow> string" where
  "str_nat n =
     (if n < 10 then [char_of (48 + n)]
      else str_nat (n div 10) @ [char_of (48 + n mod 10)])"

fun literals :: "node list \<Rightarrow> Literal list" where
  "literals [] = []"
| "literals (Lit l # ns) = l # literals ns"
| "literals (n # ns) = literals ns"

section \<open>The AGROVOC loader\<close>

text \<open>The loop over \<open>g.objects(concept, SKOS_XL.prefLabel)\<close>, with the counter \<open>i\<close>.
  Only \<open>tkl.save()\<close> is inside the \<open>try\<close>; \<open>None.lower()\<close> is not.\<close>

fun agrovoc_labels ::
  "sink \<Rightarrow> Graph \<Rightarrow> bool \<Rightarrow> bool \<Rightarrow> ThesaurusKeyword \<Rightarrow> node list \<Rightarrow> nat \<Rightarrow> world
     \<Rightarrow> (error + nat) \<times> world" where
  "agrovoc_labels rejects g store lower_case tk [] i w = (Inr i, w)"
| "agrovoc_labels rejects g store lower_case tk (pref_label_element # rest) i w =
     (let pref_label = as_Literal (graph_value g pref_label_element SKOS_XL_literalForm)
      in case apply_lower_case_language (language pref_label) lower_case of
           Inl e \<Rightarrow> (Inl e, w)
         | Inr None \<Rightarrow> agrovoc_labels rejects g store lower_case tk rest i w
         | Inr (Some lg) \<Rightarrow>
             if lg \<notin> set SUPPORTED_LANGUAGES
             then agrovoc_labels rejects g store lower_case tk rest i w
             else
               (let lbl = apply_lower_case (lexical pref_label) lower_case;
                    tkl = \<lparr>keyword = tk, lang = lg, label = lbl\<rparr>
                in if store then
                     (case save rejects (LabelRow tkl) w of
                        Inl e \<Rightarrow>
                          agrovoc_labels rejects g store lower_case tk rest (i + 1)
                            (stderr_write ERROR
                               (''could not add label: '' @ lbl @ '' with language: '' @ lg
                                  @ '') to database, skipping entry ...'') w)
                      | Inr w' \<Rightarrow> agrovoc_labels rejects g store lower_case tk rest (i + 1) w')
                   else agrovoc_labels rejects g store lower_case tk rest (i + 1) w))"

text \<open>The loop over the concepts. \<open>continue\<close> is the recursive call on the rest; an
  exception that nothing catches ends the loop with \<open>Some\<close> of it. The second
  \<open>if alt_label is None\<close> of the source, the one that writes the error line, tests
  the result of \<open>__apply_lower_case__(str(alt_label), lower_case)\<close>, a string: it
  never holds, so the branch has no counterpart here.\<close>

fun agrovoc_concepts ::
  "sink \<Rightarrow> Graph \<Rightarrow> bool \<Rightarrow> string \<Rightarrow> bool \<Rightarrow> Thesaurus \<Rightarrow> node list \<Rightarrow> world
     \<Rightarrow> error option \<times> world" where
  "agrovoc_concepts rejects g store defaultlang lower_case th [] w = (None, w)"
| "agrovoc_concepts rejects g store defaultlang lower_case th (concept # rest) w =
     (let about_v = apply_lower_case (str concept) lower_case
      in case get_default_language_preflabel g concept defaultlang of
           None \<Rightarrow> agrovoc_concepts rejects g store defaultlang lower_case th rest w
         | Some found \<Rightarrow>
             (let alt = apply_lower_case found lower_case;
                  tk = \<lparr>thesaurus = th, tk_about = about_v, alt_label = alt\<rparr>
              in case (if store then save rejects (KeywordRow tk) w else Inr w) of
                   Inl e \<Rightarrow> (Some e, w)
                 | Inr w1 \<Rightarrow>
                     (case agrovoc_labels rejects g store lower_case tk
                             (objects g concept SKOS_XL_prefLabel) 0 w1 of
                        (Inl e, w2) \<Rightarrow> (Some e, w2)
                      | (Inr i, w2) \<Rightarrow>
                          agrovoc_concepts rejects g store defaultlang lower_case th rest
                            (stderr_write SUCCESS
                               ('' set alt_label: '' @ alt @ '': ('' @ str_nat i @ '')'') w2))))"

text \<open>The date literal: \<open>Literal(g.value(..., default=""))\<close>.\<close>

definition modified_literal :: "Graph \<Rightarrow> Literal" where
  "modified_literal g =
     (case graph_value g AGROVOC_ConceptSchemeURI DCTERMS_modified of
        None \<Rightarrow> \<lparr>lexical = [], language = None, isoformat = None\<rparr>
      | Some n \<Rightarrow> as_Literal (Some n))"

text \<open>\<open>load_thesaurus\<close> from the parsed graph on. The argument \<open>description\<close> is
  assigned anew from the graph before its first use, as in the source; \<open>title\<close> is
  used in the log line only.\<close>

definition agrovoc_load_thesaurus ::
  "sink \<Rightarrow> Graph \<Rightarrow> input_file \<Rightarrow> string \<Rightarrow> bool \<Rightarrow> string \<Rightarrow> string \<Rightarrow> string \<Rightarrow> bool
     \<Rightarrow> world \<Rightarrow> error option \<times> world" where
  "agrovoc_load_thesaurus rejects g input_file name store title_arg description_arg
       defaultlang lower_case w =
     (let w1 = (case input_file of
                  UploadedFile n \<Rightarrow>
                    stderr_write WARNING (''Guessing RDF format from '' @ n @ ''...'') w
                | Path p \<Rightarrow> w);
          w2 = stderr_write SUCCESS
                 (''Starting to parsed file: '' @ file_name input_file @ '' ...'') w1;
          w3 = stderr_write SUCCESS
                 (''Successful parsed file: '' @ file_name input_file @ '' ...'') w2
      in case isoformat (modified_literal g) of
           None \<Rightarrow> (Some TypeError, w3)
         | Some thesaurus_date \<Rightarrow>
         (case graph_value_unique g RDF_type SKOS_ConceptScheme of
            Inl e \<Rightarrow> (Some e, w3)
          | Inr None \<Rightarrow> (Some (CommandError ''ConceptScheme not found in file''), w3)
          | Inr (Some scheme) \<Rightarrow>
          (case value_for_language (literals (objects_any g scheme)) defaultlang of
             Inl e \<Rightarrow> (Some e, w3)
           | Inr thesaurus_title \<Rightarrow>
           (let description_v =
                  (case graph_value g scheme DC_description of
                     None \<Rightarrow> thesaurus_title
                   | Some d \<Rightarrow> str d);
                th = \<lparr>identifier = name, description = description_v,
                      title = thesaurus_title, about = str scheme, date = thesaurus_date\<rparr>
            in case (if store then save rejects (ThesaurusRow th) w3 else Inr w3) of
                 Inl e \<Rightarrow> (Some e, w3)
               | Inr w4 \<Rightarrow>
                   agrovoc_concepts rejects g store defaultlang lower_case th
                     (subjects g SKOS_inScheme AGROVOC_ConceptSchemeURI)
                     (stderr_write SUCCESS
                        (''Thesaurus '' @ [CHR 0x22] @ title_arg @ [CHR 0x22] @ '', desc: ''
                           @ description_v @ '' issued at '' @ thesaurus_date) w4)))))"

text \<open>The default of \<open>--description\<close>.\<close>

definition default_description :: string where
  "default_description =
     [CHR 0x0A] @ ''            AGROVOC is a multilingual and controlled vocabulary designed to cover concepts and terminology under FAO's areas of interest. ''
       @ [CHR 0x0A] @ ''            ''"

text \<open>\<open>not input_file\<close>, \<open>not name\<close>: an absent or empty value.\<close>

fun given_file :: "input_file option \<Rightarrow> input_file option" where
  "given_file None = None"
| "given_file (Some (Path p)) = (if p = [] then None else Some (Path p))"
| "given_file (Some (UploadedFile n)) = Some (UploadedFile n)"

fun given_name :: "string option \<Rightarrow> string option" where
  "given_name None = None"
| "given_name (Some n) = (if n = [] then None else Some n)"

text \<open>\<open>handle\<close>: the options are the arguments; \<open>description_opt = None\<close> is the flag
  left out, which gives the default.\<close>

definition agrovoc_handle ::
  "sink \<Rightarrow> Graph \<Rightarrow> input_file option \<Rightarrow> string option \<Rightarrow> string \<Rightarrow> string option
     \<Rightarrow> bool \<Rightarrow> string \<Rightarrow> bool \<Rightarrow> world \<Rightarrow> error option \<times> world" where
  "agrovoc_handle rejects g file_opt name_opt title_arg description_opt dryrun default_lang
       lower_case w =
     (case given_file file_opt of
        None \<Rightarrow> (Some (CommandError ''Missing thesaurus rdf file path (--file)''), w)
      | Some input_file \<Rightarrow>
          (case given_name name_opt of
             None \<Rightarrow>
               (Some (CommandError ''Missing identifier name for the thesaurus (--name)''), w)
           | Some name \<Rightarrow>
               agrovoc_load_thesaurus rejects g input_file name (\<not> dryrun) title_arg
                 (case description_opt of None \<Rightarrow> default_description | Some d \<Rightarrow> d)
                 default_lang lower_case w))"

section \<open>The GEMET loader\<close>

text \<open>\<open>pref_label.language\<close> on what \<open>preferredLabel\<close> returned.\<close>

fun node_language :: "node \<Rightarrow> error + string option" where
  "node_language (Lit l) = Inr (language l)"
| "node_language n = Inl AttributeError"

text \<open>The loop over the pairs of \<open>preferredLabel(g, concept)\<close>; any exception leaves
  the loop (the \<open>try\<close> is around the whole loop).\<close>

fun gemet_labels ::
  "sink \<Rightarrow> bool \<Rightarrow> bool \<Rightarrow> ThesaurusKeyword \<Rightarrow> (node \<times> node) list \<Rightarrow> world
     \<Rightarrow> error option \<times> world" where
  "gemet_labels rejects store lower_case tk [] w = (None, w)"
| "gemet_labels rejects store lower_case tk ((labelProp, pref_label) # rest) w =
     (case node_language pref_label of
        Inl e \<Rightarrow> (Some e, w)
      | Inr tag \<Rightarrow>
          (case apply_lower_case_language tag lower_case of
             Inl e \<Rightarrow> (Some e, w)
           | Inr None \<Rightarrow> gemet_labels rejects store lower_case tk rest w
           | Inr (Some lg) \<Rightarrow>
               (let lbl = apply_lower_case (str pref_label) lower_case
                in if lg \<in> set SUPPORTED_LANGUAGES then
                     (let w1 = stderr_write SUCCESS (''  Label '' @ lg @ '': '' @ lbl) w;
                          tkl = \<lparr>keyword = tk, lang = lg, label = lbl\<rparr>
                      in if store then
                           (case save rejects (LabelRow tkl) w1 of
                              Inl e \<Rightarrow> (Some e, w1)
                            | Inr w2 \<Rightarrow> gemet_labels rejects store lower_case tk rest w2)
                         else gemet_labels rejects store lower_case tk rest w1)
                   else gemet_labels rejects store lower_case tk rest w)))"

text \<open>\<open>__apply_lower_case__(preferredLabel(g, concept, defaultlang)[0][1], lower_case)\<close>:
  the first \<open>try\<close> of the loop body.\<close>

definition gemet_pref :: "Graph \<Rightarrow> node \<Rightarrow> string \<Rightarrow> bool \<Rightarrow> error + string" where
  "gemet_pref g concept defaultlang lower_case =
     (case preferredLabel g concept (Some defaultlang) [] label_properties of
        Inl e \<Rightarrow> Inl e
      | Inr [] \<Rightarrow> Inl IndexError
      | Inr ((labelProp, l) # others) \<Rightarrow> Inr (apply_lower_case (str l) lower_case))"

text \<open>The body of the second \<open>try\<close>: the keyword's save and the loop over its labels.\<close>

definition gemet_store_keyword ::
  "sink \<Rightarrow> Graph \<Rightarrow> bool \<Rightarrow> bool \<Rightarrow> ThesaurusKeyword \<Rightarrow> node \<Rightarrow> world
     \<Rightarrow> error option \<times> world" where
  "gemet_store_keyword rejects g store lower_case tk concept w =
     (case (if store then save rejects (KeywordRow tk) w else Inr w) of
        Inl e \<Rightarrow> (Some e, w)
      | Inr w1 \<Rightarrow>
          (case preferredLabel g concept None [] label_properties of
             Inl e \<Rightarrow> (Some e, w1)
           | Inr pairs \<Rightarrow> gemet_labels rejects store lower_case tk pairs w1))"

text \<open>The loop over the concepts. In the first \<open>except\<close> the source builds the styled
  error text and drops it (no \<open>self.stderr.write\<close>), so nothing is written there.\<close>

fun gemet_concepts ::
  "sink \<Rightarrow> Graph \<Rightarrow> bool \<Rightarrow> string \<Rightarrow> bool \<Rightarrow> Thesaurus \<Rightarrow> node list \<Rightarrow> world \<Rightarrow> world" where
  "gemet_concepts rejects g store defaultlang lower_case th [] w = w"
| "gemet_concepts rejects g store defaultlang lower_case th (concept # rest) w =
     (case gemet_pref g concept defaultlang lower_case of
        Inl e \<Rightarrow> gemet_concepts rejects g store defaultlang lower_case th rest w
      | Inr pref \<Rightarrow>
          (let about_v = apply_lower_case (str concept) lower_case;
               w1 = stderr_write SUCCESS (''Concept: '' @ pref @ '' ('' @ about_v @ '')'') w;
               tk = \<lparr>thesaurus = th, tk_about = about_v, alt_label = pref\<rparr>
           in case gemet_store_keyword rejects g store lower_case tk concept w1 of
                (Some e, w2) \<Rightarrow>
                  gemet_concepts rejects g store defaultlang lower_case th rest
                    (stdout_print (''could not save: '' @ pref @ '', duplicate ...'') w2)
              | (None, w2) \<Rightarrow>
                  gemet_concepts rejects g store defaultlang lower_case th rest w2))"

definition gemet_load_thesaurus ::
  "sink \<Rightarrow> Graph \<Rightarrow> input_file \<Rightarrow> string \<Rightarrow> string \<Rightarrow> bool \<Rightarrow> bool \<Rightarrow> world
     \<Rightarrow> error option \<times> world" where
  "gemet_load_thesaurus rejects g input_file name defaultlang store lower_case w =
     (let w1 = stderr_write SUCCESS ('' using defaultlang: '' @ defaultlang @ '' ...'') w;
          w2 = (case input_file of
                  UploadedFile n \<Rightarrow>
                    stderr_write WARNING (''Guessing RDF format from '' @ n @ ''...'') w1
                | Path p \<Rightarrow> w1)
      in case graph_value_unique g RDF_type SKOS_ConceptScheme of
           Inl e \<Rightarrow> (Some e, w2)
         | Inr None \<Rightarrow> (Some (CommandError ''ConceptScheme not found in file''), w2)
         | Inr (Some scheme) \<Rightarrow>
         (case value_for_language (literals (objects_any g scheme)) defaultlang of
            Inl e \<Rightarrow> (Some e, w2)
          | Inr thesaurus_title \<Rightarrow>
          (let description_v =
                 (case graph_value g scheme DC_description of
                    None \<Rightarrow> thesaurus_title
                  | Some d \<Rightarrow> str d);
               date_issued =
                 (case graph_value g scheme DCTERMS_issued of
                    None \<Rightarrow> ''2024-01-01''
                  | Some d \<Rightarrow> str d);
               w3 = stderr_write SUCCESS
                      (''Thesaurus '' @ [CHR 0x22] @ thesaurus_title @ [CHR 0x22] @ '', desc: ''
                         @ description_v @ '' issued at '' @ date_issued) w2;
               th = \<lparr>identifier = name, description = description_v,
                     title = thesaurus_title, about = str scheme, date = date_issued\<rparr>
           in case (if store then save rejects (ThesaurusRow th) w3 else Inr w3) of
                Inl e \<Rightarrow> (Some e, w3)
              | Inr w4 \<Rightarrow>
                  (None, gemet_concepts rejects g store defaultlang lower_case th
                           (subjects g RDF_type SKOS_Concept) w4))))"

definition gemet_handle ::
  "sink \<Rightarrow> Graph \<Rightarrow> input_file option \<Rightarrow> string option \<Rightarrow> bool \<Rightarrow> string \<Rightarrow> bool \<Rightarrow> world
     \<Rightarrow> error option \<times> world" where
  "gemet_handle rejects g file_opt name_opt dryrun default_lang lower_case w =
     (case given_file file_opt of
        None \<Rightarrow> (Some (CommandError ''Missing thesaurus rdf file path (--file)''), w)
      | Some input_file \<Rightarrow>
          (case given_name name_opt of
             None \<Rightarrow>
               (Some (CommandError ''Missing identifier name for the thesaurus (--name)''), w)
           | Some name \<Rightarrow>
               gemet_load_thesaurus rejects g input_file name default_lang (\<not> dryrun)
                 lower_case w))"

section \<open>Notions used in the statements\<close>

text \<open>\<open>d\<close> is the text of the tag \<open>t\<close> before its first hyphen: \<open>d\<close> has no hyphen, and
  \<open>t\<close> is \<open>d\<close> itself or \<open>d\<close>, a hyphen and anything more.\<close>

definition before_first_hyphen :: "string \<Rightarrow> string \<Rightarrow> bool" where
  "before_first_hyphen t d =
     (CHR ''-'' \<notin> set d \<and> (t = d \<or> take (Suc (length d)) t = d @ [CHR ''-'']))"

text \<open>The selector's test on one literal: untagged, or the text of its tag before the
  first hyphen is the target language.\<close>

definition selectable :: "string \<Rightarrow> Literal \<Rightarrow> bool" where
  "selectable default_lang item =
     (case language item of
        None \<Rightarrow> True
      | Some t \<Rightarrow> before_first_hyphen t default_lang)"

text \<open>The literal forms of a concept's SKOS-XL prefLabel targets, in order.\<close>

definition preflabel_literals :: "Graph \<Rightarrow> node \<Rightarrow> Literal list" where
  "preflabel_literals g concept =
     map (\<lambda>t. as_Literal (graph_value g t SKOS_XL_literalForm))
       (objects g concept SKOS_XL_prefLabel)"

text \<open>A literal without a datetime value.\<close>

definition plain :: "string \<Rightarrow> string option \<Rightarrow> Literal" where
  "plain s t = \<lparr>lexical = s, language = t, isoformat = None\<rparr>"

text \<open>A concept with two SKOS-XL labels, tagged \<open>en-GB\<close> and \<open>de\<close>.\<close>

definition xl_graph :: Graph where
  "xl_graph =
     [(URIRef ''c1'', SKOS_XL_prefLabel, URIRef ''x1''),
      (URIRef ''c1'', SKOS_XL_prefLabel, URIRef ''x2''),
      (URIRef ''x1'', SKOS_XL_literalForm, Lit (plain ''colour'' (Some ''en-GB''))),
      (URIRef ''x2'', SKOS_XL_literalForm, Lit (plain ''Farbe'' (Some ''de'')))]"

text \<open>The language filter of \<open>preferredLabel\<close> on a literal.\<close>

definition passes :: "string option \<Rightarrow> Literal \<Rightarrow> bool" where
  "passes lang_arg l =
     (case lang_arg of
        None \<Rightarrow> True
      | Some t \<Rightarrow> if t = [] then language l = None else language l = Some t)"

fun is_literal :: "node \<Rightarrow> bool" where
  "is_literal (Lit l) = True"
| "is_literal n = False"

text \<open>The pairs of one label property whose literal passes the filter.\<close>

definition passing :: "Graph \<Rightarrow> node \<Rightarrow> string option \<Rightarrow> node \<Rightarrow> (node \<times> node) list" where
  "passing g subject lang_arg labelProp =
     map (\<lambda>l. (labelProp, Lit l)) (filter (passes lang_arg) (literals (objects g subject labelProp)))"

text \<open>A subject with a \<open>skos:prefLabel\<close> tagged \<open>de\<close> and an \<open>rdfs:label\<close> tagged \<open>en\<close>.\<close>

definition two_label_graph :: Graph where
  "two_label_graph =
     [(URIRef ''c1'', SKOS_prefLabel, Lit (plain ''Haus'' (Some ''de''))),
      (URIRef ''c1'', RDFS_label, Lit (plain ''house'' (Some ''en'')))]"

text \<open>A sink that accepts every row.\<close>

definition accepting :: sink where
  "accepting rows r = False"

text \<open>The Thesaurus rows among the rows of the sink.\<close>

fun thesaurus_rows :: "row list \<Rightarrow> Thesaurus list" where
  "thesaurus_rows [] = []"
| "thesaurus_rows (ThesaurusRow t # rs) = t # thesaurus_rows rs"
| "thesaurus_rows (r # rs) = thesaurus_rows rs"

text \<open>The Thesaurus record a row is, or belongs to.\<close>

fun row_thesaurus :: "row \<Rightarrow> Thesaurus" where
  "row_thesaurus (ThesaurusRow t) = t"
| "row_thesaurus (KeywordRow k) = thesaurus k"
| "row_thesaurus (LabelRow l) = thesaurus (keyword l)"

text \<open>The rows a run added to the sink it started from.\<close>

definition new_rows :: "world \<Rightarrow> error option \<times> world \<Rightarrow> row list" where
  "new_rows w result = drop (length (db w)) (db (snd result))"

text \<open>A label row made from a tagged literal: its \<open>lang\<close> is the tag and its \<open>label\<close> the
  text, both folded when case folding is on.\<close>

definition label_source :: "bool \<Rightarrow> Literal \<Rightarrow> ThesaurusKeywordLabel \<Rightarrow> bool" where
  "label_source lower_case x l =
     (case language x of
        None \<Rightarrow> False
      | Some t \<Rightarrow> lang l = apply_lower_case t lower_case
                  \<and> label l = apply_lower_case (lexical x) lower_case)"

text \<open>A row that is a label of the keyword \<open>tk\<close>, in a supported language, made from one
  of the literals \<open>xs\<close>.\<close>

definition label_row_of :: "bool \<Rightarrow> ThesaurusKeyword \<Rightarrow> Literal list \<Rightarrow> row \<Rightarrow> bool" where
  "label_row_of lower_case tk xs r =
     (case r of
        LabelRow l \<Rightarrow>
          keyword l = tk \<and> lang l \<in> set SUPPORTED_LANGUAGES
          \<and> list_ex (\<lambda>x. label_source lower_case x l) xs
      | _ \<Rightarrow> False)"

text \<open>A row of the concepts \<open>cs\<close> of the thesaurus \<open>th\<close>: a keyword of \<open>th\<close>, or a label of
  such a keyword made from the label literals \<open>src c\<close> of one of the concepts.\<close>

definition concept_row_of ::
  "bool \<Rightarrow> Thesaurus \<Rightarrow> (node \<Rightarrow> Literal list) \<Rightarrow> node list \<Rightarrow> row \<Rightarrow> bool" where
  "concept_row_of lower_case th src cs r =
     (case r of
        ThesaurusRow t \<Rightarrow> False
      | KeywordRow k \<Rightarrow> thesaurus k = th
      | LabelRow l \<Rightarrow>
          thesaurus (keyword l) = th
          \<and> list_ex (\<lambda>c. label_row_of lower_case (keyword l) (src c) r) cs)"

text \<open>The label literals the GEMET loader reads for a concept.\<close>

definition gemet_label_literals :: "Graph \<Rightarrow> node \<Rightarrow> Literal list" where
  "gemet_label_literals g c =
     literals (objects g c SKOS_prefLabel) @ literals (objects g c RDFS_label)"

text \<open>An AGROVOC file: the scheme with an untagged title and a modification date, and
  three concepts: \<open>c_1\<close> with a German label only, \<open>c_2\<close> with labels tagged \<open>en\<close> and
  \<open>FR\<close>, \<open>c_3\<close> with an English label.\<close>

definition agrovoc_graph :: Graph where
  "agrovoc_graph =
     [(AGROVOC_ConceptSchemeURI, RDF_type, SKOS_ConceptScheme),
      (AGROVOC_ConceptSchemeURI, RDFS_label, Lit (plain ''AGROVOC'' None)),
      (AGROVOC_ConceptSchemeURI, DCTERMS_modified,
         Lit \<lparr>lexical = ''2024-05-01T10:00:00+02:00'', language = None,
              isoformat = Some ''2024-05-01T10:00:00''\<rparr>),
      (URIRef ''c_1'', SKOS_inScheme, AGROVOC_ConceptSchemeURI),
      (URIRef ''c_1'', SKOS_XL_prefLabel, URIRef ''xl_1''),
      (URIRef ''xl_1'', SKOS_XL_literalForm, Lit (plain ''Mais'' (Some ''de''))),
      (URIRef ''c_2'', SKOS_inScheme, AGROVOC_ConceptSchemeURI),
      (URIRef ''c_2'', SKOS_XL_prefLabel, URIRef ''xl_2''),
      (URIRef ''xl_2'', SKOS_XL_literalForm, Lit (plain ''Wheat'' (Some ''en''))),
      (URIRef ''c_2'', SKOS_XL_prefLabel, URIRef ''xl_3''),
      (URIRef ''xl_3'', SKOS_XL_literalForm, Lit (plain ''Ble'' (Some ''FR''))),
      (URIRef ''c_3'', SKOS_inScheme, AGROVOC_ConceptSchemeURI),
      (URIRef ''c_3'', SKOS_XL_prefLabel, URIRef ''xl_4''),
      (URIRef ''xl_4'', SKOS_XL_literalForm, Lit (plain ''Rice'' (Some ''en'')))]"

text \<open>A GEMET-style file: a scheme titled in English and two concepts, \<open>g_1\<close> with a
  German label only, \<open>g_2\<close> with labels tagged \<open>en\<close>, \<open>de\<close> and \<open>FR\<close>.\<close>

definition gemet_graph :: Graph where
  "gemet_graph =
     [(URIRef ''scheme'', RDF_type, SKOS_ConceptScheme),
      (URIRef ''scheme'', RDFS_label, Lit (plain ''GEMET'' (Some ''en''))),
      (URIRef ''g_1'', RDF_type, SKOS_Concept),
      (URIRef ''g_1'', SKOS_prefLabel, Lit (plain ''Mais'' (Some ''de''))),
      (URIRef ''g_2'', RDF_type, SKOS_Concept),
      (URIRef ''g_2'', SKOS_prefLabel, Lit (plain ''Wheat'' (Some ''en''))),
      (URIRef ''g_2'', SKOS_prefLabel, Lit (plain ''Weizen'' (Some ''de''))),
      (URIRef ''g_2'', SKOS_prefLabel, Lit (plain ''Ble'' (Some ''FR'')))]"

text \<open>An empty sink and no output yet.\<close>

definition world0 :: world where "world0 = \<lparr>db = [], out = []\<rparr>"

text \<open>The Thesaurus records the two files give.\<close>

definition agrovoc_th :: Thesaurus where
  "agrovoc_th = \<lparr>identifier = ''agrovoc'', description = ''AGROVOC'', title = ''AGROVOC'',
       about = ''http://aims.fao.org/aos/agrovoc'', date = ''2024-05-01T10:00:00''\<rparr>"

definition gemet_th :: Thesaurus where
  "gemet_th = \<lparr>identifier = ''gemet'', description = ''GEMET'', title = ''GEMET'',
       about = ''scheme'', date = ''2024-01-01''\<rparr>"

text \<open>A sink that rejects the keyword of one concept (a duplicate of it is already there),
  and one that rejects the labels of one language.\<close>

definition rejects_about :: "string \<Rightarrow> sink" where
  "rejects_about a rows r = (case r of KeywordRow k \<Rightarrow> tk_about k = a | _ \<Rightarrow> False)"

definition rejects_lang :: "string \<Rightarrow> sink" where
  "rejects_lang lg rows r = (case r of LabelRow l \<Rightarrow> lang l = lg | _ \<Rightarrow> False)"

text \<open>The label rows among the rows of the sink.\<close>

fun label_rows :: "row list \<Rightarrow> ThesaurusKeywordLabel list" where
  "label_rows [] = []"
| "label_rows (LabelRow l # rs) = l # label_rows rs"
| "label_rows (r # rs) = label_rows rs"

text \<open>A label in a supported language that was made from a tagged label literal of one
  of the concepts \<open>cs\<close>: its \<open>lang\<close> is that literal's tag, folded when case folding is on.\<close>

definition label_from ::
  "bool \<Rightarrow> (node \<Rightarrow> Literal list) \<Rightarrow> node list \<Rightarrow> ThesaurusKeywordLabel \<Rightarrow> bool" where
  "label_from lower_case src cs l =
     (lang l \<in> set SUPPORTED_LANGUAGES
      \<and> list_ex (\<lambda>c. list_ex (\<lambda>x. label_source lower_case x l) (src c)) cs)"

text \<open>The language and the text of a label.\<close>

definition lang_label :: "ThesaurusKeywordLabel \<Rightarrow> string \<times> string" where
  "lang_label l = (lang l, label l)"

text \<open>A line written to the error stream in the error style.\<close>

fun is_error_line :: "out_line \<Rightarrow> bool" where
  "is_error_line (Stderr ERROR msg) = True"
| "is_error_line l = False"

text \<open>The keyword rows among the rows of the sink.\<close>

fun keyword_rows :: "row list \<Rightarrow> ThesaurusKeyword list" where
  "keyword_rows [] = []"
| "keyword_rows (KeywordRow k # rs) = k # keyword_rows rs"
| "keyword_rows (r # rs) = keyword_rows rs"

text \<open>A literal that carries a language tag.\<close>

definition tagged :: "Literal \<Rightarrow> bool" where
  "tagged x = (language x \<noteq> None)"

text \<open>The whitelist test as the loaders make it: on the tag, folded when case folding is
  on.\<close>

definition whitelisted :: "bool \<Rightarrow> Literal \<Rightarrow> bool" where
  "whitelisted lower_case x =
     (case language x of
        None \<Rightarrow> False
      | Some t \<Rightarrow> apply_lower_case t lower_case \<in> set SUPPORTED_LANGUAGES)"

text \<open>The label row of the keyword \<open>tk\<close> for a literal.\<close>

definition label_row :: "bool \<Rightarrow> ThesaurusKeyword \<Rightarrow> Literal \<Rightarrow> row" where
  "label_row lower_case tk x =
     LabelRow \<lparr>keyword = tk, lang = apply_lower_case (language_key x) lower_case,
               label = apply_lower_case (lexical x) lower_case\<rparr>"

text \<open>The rows expected for one AGROVOC concept: nothing without a canonical label,
  otherwise the keyword and a label for each whitelisted literal form.\<close>

definition agrovoc_expected :: "bool \<Rightarrow> Graph \<Rightarrow> string \<Rightarrow> Thesaurus \<Rightarrow> node \<Rightarrow> row list" where
  "agrovoc_expected lower_case g defaultlang th concept =
     (case get_default_language_preflabel g concept defaultlang of
        None \<Rightarrow> []
      | Some found \<Rightarrow>
          (let tk = \<lparr>thesaurus = th, tk_about = apply_lower_case (str concept) lower_case,
                      alt_label = apply_lower_case found lower_case\<rparr>
           in KeywordRow tk
                # map (label_row lower_case tk)
                    (filter (whitelisted lower_case) (preflabel_literals g concept))))"

text \<open>The same for one GEMET concept, whose labels are the literals of the first label
  property that has any.\<close>

definition gemet_expected :: "bool \<Rightarrow> Graph \<Rightarrow> string \<Rightarrow> Thesaurus \<Rightarrow> node \<Rightarrow> row list" where
  "gemet_expected lower_case g defaultlang th concept =
     (case gemet_pref g concept defaultlang lower_case of
        Inl e \<Rightarrow> []
      | Inr pref \<Rightarrow>
          (let tk = \<lparr>thesaurus = th, tk_about = apply_lower_case (str concept) lower_case,
                      alt_label = pref\<rparr>
           in KeywordRow tk
                # map (label_row lower_case tk)
                    (filter (whitelisted lower_case)
                       (if objects g concept SKOS_prefLabel \<noteq> []
                        then literals (objects g concept SKOS_prefLabel)
                        else literals (objects g concept RDFS_label)))))"

text \<open>A GEMET concept whose label objects are all tagged literals.\<close>

definition tagged_labels :: "Graph \<Rightarrow> node \<Rightarrow> bool" where
  "tagged_labels g c =
     (list_all is_literal (objects g c SKOS_prefLabel)
      \<and> list_all is_literal (objects g c RDFS_label)
      \<and> list_all tagged (gemet_label_literals g c))"

text \<open>The (concept, language) pairs of the labels in the sink.\<close>

definition label_pairs :: "row list \<Rightarrow> (string \<times> string) list" where
  "label_pairs rows = map (\<lambda>l. (tk_about (keyword l), lang l)) (label_rows rows)"

section \<open>The language selector and the canonical label\<close>

lemma primary_subtag_before_first_hyphen:
  "primary_subtag t = d \<longleftrightarrow> before_first_hyphen t d"
proof
  assume d: "primary_subtag t = d"
  let ?P = "\<lambda>c. c \<noteq> CHR ''-''"
  have nohyphen: "CHR ''-'' \<notin> set d"
    using d set_takeWhileD [of "CHR ''-''" ?P t] by (auto simp: primary_subtag_def)
  have split: "t = d @ dropWhile ?P t"
  proof -
    have "takeWhile ?P t = d" using d by (simp add: primary_subtag_def)
    then have "d @ dropWhile ?P t = takeWhile ?P t @ dropWhile ?P t" by simp
    then show ?thesis by (simp only: takeWhile_dropWhile_id)
  qed
  show "before_first_hyphen t d"
  proof (cases "dropWhile ?P t")
    case Nil
    have "t = d" by (rule trans [OF split]) (simp only: Nil append_Nil2)
    then show ?thesis using nohyphen by (simp add: before_first_hyphen_def)
  next
    case (Cons c cs)
    have "\<not> ?P (hd (dropWhile ?P t))"
      by (rule hd_dropWhile) (simp add: Cons)
    then have c: "c = CHR ''-''" by (simp add: Cons)
    have "t = d @ c # cs" by (rule trans [OF split]) (simp only: Cons)
    then have "take (Suc (length d)) t = take (Suc (length d)) (d @ CHR ''-'' # cs)"
      using c by simp
    then have "take (Suc (length d)) t = d @ [CHR ''-'']" by simp
    then show ?thesis using nohyphen by (simp add: before_first_hyphen_def)
  qed
next
  assume b: "before_first_hyphen t d"
  then have nohyphen: "\<forall>c \<in> set d. c \<noteq> CHR ''-''"
    by (auto simp: before_first_hyphen_def)
  from b consider "t = d" | "take (Suc (length d)) t = d @ [CHR ''-'']"
    by (auto simp: before_first_hyphen_def)
  then show "primary_subtag t = d"
  proof cases
    case 1
    then show ?thesis using nohyphen by (simp add: primary_subtag_def)
  next
    case 2
    have "t = take (Suc (length d)) t @ drop (Suc (length d)) t" by simp
    then have "t = d @ CHR ''-'' # drop (Suc (length d)) t" using 2 by simp
    then have "takeWhile (\<lambda>c. c \<noteq> CHR ''-'') t
        = takeWhile (\<lambda>c. c \<noteq> CHR ''-'') (d @ CHR ''-'' # drop (Suc (length d)) t)"
      by simp
    also have "\<dots> = takeWhile (\<lambda>c. c \<noteq> CHR ''-'') d"
      by (rule takeWhile_tail) simp
    also have "\<dots> = d" using nohyphen by simp
    finally show ?thesis by (simp add: primary_subtag_def)
  qed
qed

lemma scan_sorted_lang_find:
  "scan_sorted_lang xs d = map_option lexical (find (selectable d) xs)"
  by (induction xs)
     (auto simp: selectable_def primary_subtag_before_first_hyphen split: option.splits)

lemma language_key_cases:
  "language_key = (\<lambda>l. case language l of None \<Rightarrow> [] | Some t \<Rightarrow> t)"
  by (rule ext) (simp add: language_key_def)

text \<open>
  Claim C1. On a non-empty list, \<open>value_for_language\<close> returns the text of the first
  literal, in the list sorted by language tag (no tag counting as the empty string, and
  literals of equal tag keeping their order), that is untagged or whose tag, read up to
  its first hyphen, is the target language; when the sorted list has no such literal it
  returns the text of the first element of the list as it was given.
\<close>

theorem value_for_language_first_selectable:
  "available \<noteq> [] \<Longrightarrow>
   value_for_language available default_lang =
     Inr (case find (selectable default_lang)
                 (sort_key (\<lambda>l. case language l of None \<Rightarrow> [] | Some t \<Rightarrow> t) available) of
            Some item \<Rightarrow> lexical item
          | None \<Rightarrow> lexical (hd available))"
  by (cases available)
     (auto simp: value_for_language_def scan_sorted_lang_find language_key_cases
           split: option.splits)

text \<open>Four inputs, target \<open>en\<close>. With \<open>fr\<close> before \<open>de\<close> nothing is selectable: the answer
  is the \<open>fr\<close> literal, first in the input, not the \<open>de\<close> one, first after sorting. The tag
  \<open>en-GB\<close> is selected, its text before the hyphen being \<open>en\<close>; the tag \<open>eng\<close> is not. An
  untagged literal, last in the input, goes before \<open>en\<close> itself.\<close>

theorem value_for_language_first_selectable_witness:
  "[plain ''b'' (Some ''fr''), plain ''c'' (Some ''de'')] \<noteq> []
   \<and> value_for_language [plain ''b'' (Some ''fr''), plain ''c'' (Some ''de'')] ''en'' = Inr ''b''
   \<and> sort_key (\<lambda>l. case language l of None \<Rightarrow> [] | Some t \<Rightarrow> t)
         [plain ''b'' (Some ''fr''), plain ''c'' (Some ''de'')]
       = [plain ''c'' (Some ''de''), plain ''b'' (Some ''fr'')]
   \<and> value_for_language [plain ''b'' (Some ''fr''), plain ''g'' (Some ''en-GB'')] ''en''
       = Inr ''g''
   \<and> selectable ''en'' (plain ''g'' (Some ''en-GB''))
   \<and> value_for_language [plain ''b'' (Some ''fr''), plain ''y'' (Some ''eng'')] ''en''
       = Inr ''b''
   \<and> \<not> selectable ''en'' (plain ''y'' (Some ''eng''))
   \<and> value_for_language
         [plain ''e'' (Some ''en''), plain ''g'' (Some ''en-GB''), plain ''u'' None] ''en''
       = Inr ''u''
   \<and> value_for_language
         [plain ''g'' (Some ''en-GB''), plain ''a'' (Some ''en-AU''), plain ''b'' (Some ''fr'')]
         ''en''
       = Inr ''a''"
  using value_for_language_first_selectable
          [of "[plain ''b'' (Some ''fr''), plain ''c'' (Some ''de'')]" "''en''"]
        value_for_language_first_selectable
          [of "[plain ''b'' (Some ''fr''), plain ''g'' (Some ''en-GB'')]" "''en''"]
        value_for_language_first_selectable
          [of "[plain ''b'' (Some ''fr''), plain ''y'' (Some ''eng'')]" "''en''"]
        value_for_language_first_selectable
          [of "[plain ''e'' (Some ''en''), plain ''g'' (Some ''en-GB''), plain ''u'' None]"
              "''en''"]
        value_for_language_first_selectable
          [of "[plain ''g'' (Some ''en-GB''), plain ''a'' (Some ''en-AU''),
                plain ''b'' (Some ''fr'')]" "''en''"]
  by (simp add: plain_def selectable_def before_first_hyphen_def)

lemma scan_preflabels_find:
  "scan_preflabels g ts d =
     map_option lexical (find (\<lambda>l. language l = Some d)
        (map (\<lambda>t. as_Literal (graph_value g t SKOS_XL_literalForm)) ts))"
  by (induction ts) (auto simp: Let_def)

text \<open>
  Claim C3. \<open>get_default_language_preflabel\<close> returns the text of the first literal form,
  among the concept's SKOS-XL prefLabel targets, whose language tag is exactly the default
  language, and returns nothing when no tag is exactly the default language.
\<close>

theorem get_default_language_preflabel_exact:
  "get_default_language_preflabel g concept default_lang =
     map_option lexical
       (find (\<lambda>l. language l = Some default_lang) (preflabel_literals g concept))
   \<and> ((\<forall>l \<in> set (preflabel_literals g concept). language l \<noteq> Some default_lang)
        \<longrightarrow> get_default_language_preflabel g concept default_lang = None)"
  by (auto simp: get_default_language_preflabel_def preflabel_literals_def
        scan_preflabels_find find_None_iff)

lemma xl_graph_literals:
  "preflabel_literals xl_graph (URIRef ''c1'') =
     [plain ''colour'' (Some ''en-GB''), plain ''Farbe'' (Some ''de'')]"
  by (simp add: preflabel_literals_def xl_graph_def objects_def graph_value_def
        SKOS_XL_prefLabel_def SKOS_XL_literalForm_def)

text \<open>The tag \<open>en-GB\<close> does not count for the default language \<open>en\<close>.\<close>

theorem get_default_language_preflabel_exact_witness:
  "preflabel_literals xl_graph (URIRef ''c1'') =
     [plain ''colour'' (Some ''en-GB''), plain ''Farbe'' (Some ''de'')]
   \<and> get_default_language_preflabel xl_graph (URIRef ''c1'') ''en'' = None
   \<and> get_default_language_preflabel xl_graph (URIRef ''c1'') ''de'' = Some ''Farbe''"
  using get_default_language_preflabel_exact [of xl_graph "URIRef ''c1''" "''en''"]
        get_default_language_preflabel_exact [of xl_graph "URIRef ''c1''" "''de''"]
  by (simp add: xl_graph_literals plain_def)

section \<open>The preferred label\<close>

lemma filter_labels_literals:
  "list_all is_literal ns \<Longrightarrow>
   filter_labels lang_arg ns = Inr (map Lit (filter (passes lang_arg) (literals ns)))"
proof (induction ns)
  case Nil
  then show ?case by simp
next
  case (Cons n ns)
  then obtain l where n: "n = Lit l" by (cases n) auto
  from Cons show ?case
    by (cases lang_arg) (auto simp: n passes_def)
qed

text \<open>
  Claim C2, as amended. The preference between \<open>skos:prefLabel\<close> and \<open>rdfs:label\<close> is
  taken after the language filter: the result is the \<open>skos:prefLabel\<close> literals that
  pass the filter when there is one, otherwise the \<open>rdfs:label\<close> literals that pass it
  when there is one, otherwise the default. (Stated for a subject whose label objects are
  literals.)
\<close>

theorem preferredLabel_after_filter:
  "list_all is_literal (objects g subject SKOS_prefLabel) \<Longrightarrow>
   list_all is_literal (objects g subject RDFS_label) \<Longrightarrow>
   preferredLabel g subject lang_arg default_val label_properties =
     Inr (if passing g subject lang_arg SKOS_prefLabel \<noteq> [] then passing g subject lang_arg SKOS_prefLabel
          else if passing g subject lang_arg RDFS_label \<noteq> [] then passing g subject lang_arg RDFS_label
          else default_val)"
  by (simp add: label_properties_def filter_labels_literals passing_def comp_def)

lemma two_label_objects:
  "objects two_label_graph (URIRef ''c1'') SKOS_prefLabel = [Lit (plain ''Haus'' (Some ''de''))]"
  "objects two_label_graph (URIRef ''c1'') RDFS_label = [Lit (plain ''house'' (Some ''en''))]"
  by (simp_all add: two_label_graph_def objects_def SKOS_prefLabel_def RDFS_label_def)

theorem preferredLabel_after_filter_witness:
  "list_all is_literal (objects two_label_graph (URIRef ''c1'') SKOS_prefLabel)
   \<and> list_all is_literal (objects two_label_graph (URIRef ''c1'') RDFS_label)
   \<and> preferredLabel two_label_graph (URIRef ''c1'') (Some ''en'') [] label_properties =
       Inr [(RDFS_label, Lit (plain ''house'' (Some ''en'')))]
   \<and> preferredLabel two_label_graph (URIRef ''c1'') (Some ''de'') [] label_properties =
       Inr [(SKOS_prefLabel, Lit (plain ''Haus'' (Some ''de'')))]
   \<and> preferredLabel two_label_graph (URIRef ''c1'') (Some ''fr'') [] label_properties = Inr []"
  using preferredLabel_after_filter [of two_label_graph "URIRef ''c1''" "Some ''en''" "[]"]
        preferredLabel_after_filter [of two_label_graph "URIRef ''c1''" "Some ''de''" "[]"]
        preferredLabel_after_filter [of two_label_graph "URIRef ''c1''" "Some ''fr''" "[]"]
  by (simp add: two_label_objects passing_def passes_def plain_def)

text \<open>
  Claim C2 as stated fails: the subject has a \<open>skos:prefLabel\<close> literal (tagged \<open>de\<close>),
  none passes the filter \<open>en\<close>, and the result is the \<open>rdfs:label\<close> literal, not the
  empty default.
\<close>

theorem preferredLabel_falls_through:
  "objects two_label_graph (URIRef ''c1'') SKOS_prefLabel = [Lit (plain ''Haus'' (Some ''de''))]
   \<and> filter_labels (Some ''en'') (objects two_label_graph (URIRef ''c1'') SKOS_prefLabel) = Inr []
   \<and> preferredLabel two_label_graph (URIRef ''c1'') (Some ''en'') [] label_properties =
       Inr [(RDFS_label, Lit (plain ''house'' (Some ''en'')))]
   \<and> preferredLabel two_label_graph (URIRef ''c1'') (Some ''en'') [] label_properties \<noteq> Inr []"
  by (simp add: two_label_objects label_properties_def plain_def)

section \<open>Dry run\<close>

lemma db_stderr_write [simp]: "db (stderr_write lv msg w) = db w"
  by (simp add: stderr_write_def)

lemma db_stdout_print [simp]: "db (stdout_print msg w) = db w"
  by (simp add: stdout_print_def)

lemma out_stderr_write [simp]: "out (stderr_write lv msg w) = out w @ [Stderr lv msg]"
  by (simp add: stderr_write_def)

lemma out_stdout_print [simp]: "out (stdout_print msg w) = out w @ [Stdout msg]"
  by (simp add: stdout_print_def)

lemma agrovoc_labels_dry:
  "db (snd (agrovoc_labels rejects g False lower_case tk ns i w)) = db w"
  by (induction ns arbitrary: i w) (auto simp: Let_def split: sum.splits option.splits)

lemma agrovoc_concepts_dry:
  "db (snd (agrovoc_concepts rejects g False defaultlang lower_case th cs w)) = db w"
proof (induction cs arbitrary: w)
  case Nil
  show ?case by simp
next
  case (Cons c cs)
  show ?case
  proof (cases "get_default_language_preflabel g c defaultlang")
    case None
    then show ?thesis using Cons by simp
  next
    case (Some found)
    let ?tk = "\<lparr>thesaurus = th, tk_about = apply_lower_case (str c) lower_case,
                 alt_label = apply_lower_case found lower_case\<rparr>"
    obtain r w2 where r: "agrovoc_labels rejects g False lower_case ?tk
        (objects g c SKOS_XL_prefLabel) 0 w = (r, w2)"
      by (cases "agrovoc_labels rejects g False lower_case ?tk (objects g c SKOS_XL_prefLabel) 0 w")
    have "db w2 = db w"
      using agrovoc_labels_dry [of rejects g lower_case ?tk "objects g c SKOS_XL_prefLabel" 0 w] r
      by simp
    then show ?thesis
      using Some r Cons by (cases r) (simp_all add: Let_def)
  qed
qed

lemma agrovoc_load_dry:
  "db (snd (agrovoc_load_thesaurus rejects g f name False t d dl lc w)) = db w"
  by (cases f)
     (auto simp: agrovoc_load_thesaurus_def Let_def agrovoc_concepts_dry
           split: option.splits sum.splits)

lemma gemet_labels_dry:
  "db (snd (gemet_labels rejects False lower_case tk ps w)) = db w"
  by (induction ps arbitrary: w) (auto simp: Let_def split: sum.splits option.splits)

lemma gemet_store_keyword_dry:
  "db (snd (gemet_store_keyword rejects g False lower_case tk c w)) = db w"
  by (auto simp: gemet_store_keyword_def gemet_labels_dry split: sum.splits)

lemma gemet_concepts_dry:
  "db (gemet_concepts rejects g False defaultlang lower_case th cs w) = db w"
proof (induction cs arbitrary: w)
  case Nil
  show ?case by simp
next
  case (Cons c cs)
  show ?case
  proof (cases "gemet_pref g c defaultlang lower_case")
    case (Inl e)
    then show ?thesis using Cons by simp
  next
    case (Inr pref)
    let ?w1 = "stderr_write SUCCESS (''Concept: '' @ pref @ '' ('' @ apply_lower_case (str c) lower_case @ '')'') w"
    let ?tk = "\<lparr>thesaurus = th, tk_about = apply_lower_case (str c) lower_case, alt_label = pref\<rparr>"
    obtain r w2 where r: "gemet_store_keyword rejects g False lower_case ?tk c ?w1 = (r, w2)"
      by (cases "gemet_store_keyword rejects g False lower_case ?tk c ?w1")
    have "db w2 = db w"
      using gemet_store_keyword_dry [of rejects g lower_case ?tk c ?w1] r by simp
    then show ?thesis
      using Inr r Cons by (cases r) (simp_all add: Let_def)
  qed
qed

lemma gemet_load_dry:
  "db (snd (gemet_load_thesaurus rejects g f name dl False lc w)) = db w"
  by (cases f)
     (auto simp: gemet_load_thesaurus_def Let_def gemet_concepts_dry
           split: option.splits sum.splits)


lemma save_accepting [simp]: "save accepting r w = Inr (w\<lparr>db := db w @ [r]\<rparr>)"
  by (simp add: save_def accepting_def)

lemma stderr_write_cong_out:
  "out w = out w' \<Longrightarrow> out (stderr_write lv msg w) = out (stderr_write lv msg w')"
  by simp

lemma agrovoc_labels_sim:
  "out w = out w' \<Longrightarrow>
   fst (agrovoc_labels rejects g False lower_case tk ns i w)
     = fst (agrovoc_labels accepting g True lower_case tk ns i w')
   \<and> out (snd (agrovoc_labels rejects g False lower_case tk ns i w))
     = out (snd (agrovoc_labels accepting g True lower_case tk ns i w'))"
proof (induction ns arbitrary: i w w')
  case Nil
  then show ?case by simp
next
  case (Cons n ns)
  have step: "\<And>j r. out (w'\<lparr>db := db w' @ [r]\<rparr>) = out w"
    using Cons.prems by simp
  show ?case
    using Cons.IH [OF Cons.prems] Cons.IH [OF step [symmetric]] Cons.prems
    by (auto simp: Let_def split: sum.splits option.splits)
qed

lemma agrovoc_concepts_sim:
  "out w = out w' \<Longrightarrow>
   fst (agrovoc_concepts rejects g False defaultlang lower_case th cs w)
     = fst (agrovoc_concepts accepting g True defaultlang lower_case th cs w')
   \<and> out (snd (agrovoc_concepts rejects g False defaultlang lower_case th cs w))
     = out (snd (agrovoc_concepts accepting g True defaultlang lower_case th cs w'))"
proof (induction cs arbitrary: w w')
  case Nil
  then show ?case by simp
next
  case (Cons c cs)
  show ?case
  proof (cases "get_default_language_preflabel g c defaultlang")
    case None
    then show ?thesis using Cons.IH [OF Cons.prems] by simp
  next
    case (Some found)
    let ?tk = "\<lparr>thesaurus = th, tk_about = apply_lower_case (str c) lower_case,
                 alt_label = apply_lower_case found lower_case\<rparr>"
    let ?w1 = "w'\<lparr>db := db w' @ [KeywordRow ?tk]\<rparr>"
    obtain r w2 where r: "agrovoc_labels rejects g False lower_case ?tk
        (objects g c SKOS_XL_prefLabel) 0 w = (r, w2)"
      by (cases "agrovoc_labels rejects g False lower_case ?tk (objects g c SKOS_XL_prefLabel) 0 w")
    obtain r' w2' where r': "agrovoc_labels accepting g True lower_case ?tk
        (objects g c SKOS_XL_prefLabel) 0 ?w1 = (r', w2')"
      by (cases "agrovoc_labels accepting g True lower_case ?tk (objects g c SKOS_XL_prefLabel) 0 ?w1")
    have "out w = out ?w1" using Cons.prems by simp
    from agrovoc_labels_sim [OF this, of rejects g lower_case ?tk "objects g c SKOS_XL_prefLabel" 0]
    have eq: "r' = r" "out w2 = out w2'" using r r' by simp_all
    show ?thesis
    proof (cases r)
      case (Inl e)
      then have "r' = Inl e" using eq by simp
      then show ?thesis using Some r r' eq Inl by (simp add: Let_def)
    next
      case (Inr j)
      then have r'j: "r' = Inr j" using eq by simp
      let ?m = "'' set alt_label: '' @ apply_lower_case found lower_case @ '': ('' @ str_nat j @ '')''"
      have "out (stderr_write SUCCESS ?m w2) = out (stderr_write SUCCESS ?m w2')"
        using eq by simp
      from Cons.IH [OF this] show ?thesis
        using Some r r' r'j Inr by (simp add: Let_def)
    qed
  qed
qed

lemma agrovoc_load_sim:
  "fst (agrovoc_load_thesaurus rejects g f name False t d dl lc w)
     = fst (agrovoc_load_thesaurus accepting g f name True t d dl lc w)
   \<and> out (snd (agrovoc_load_thesaurus rejects g f name False t d dl lc w))
     = out (snd (agrovoc_load_thesaurus accepting g f name True t d dl lc w))"
  unfolding agrovoc_load_thesaurus_def Let_def
  by (auto split: option.splits sum.splits intro!: agrovoc_concepts_sim [THEN conjunct1] agrovoc_concepts_sim [THEN conjunct2])


lemma gemet_labels_sim:
  "out w = out w' \<Longrightarrow>
   fst (gemet_labels rejects False lower_case tk ps w)
     = fst (gemet_labels accepting True lower_case tk ps w')
   \<and> out (snd (gemet_labels rejects False lower_case tk ps w))
     = out (snd (gemet_labels accepting True lower_case tk ps w'))"
proof (induction ps arbitrary: w w')
  case Nil
  then show ?case by simp
next
  case (Cons p ps)
  obtain labelProp pref_label where p: "p = (labelProp, pref_label)" by (cases p)
  have step: "\<And>m r. out (stderr_write SUCCESS m w)
       = out (stderr_write SUCCESS m w'\<lparr>db := db (stderr_write SUCCESS m w') @ [r]\<rparr>)"
    using Cons.prems by simp
  have step2: "\<And>m. out (stderr_write SUCCESS m w) = out (stderr_write SUCCESS m w')"
    using Cons.prems by simp
  show ?case
    using Cons.IH [OF Cons.prems] Cons.IH [OF step] Cons.prems
    by (auto simp: p Let_def split: sum.splits option.splits)
qed

lemma gemet_store_keyword_sim:
  "out w = out w' \<Longrightarrow>
   fst (gemet_store_keyword rejects g False lower_case tk c w)
     = fst (gemet_store_keyword accepting g True lower_case tk c w')
   \<and> out (snd (gemet_store_keyword rejects g False lower_case tk c w))
     = out (snd (gemet_store_keyword accepting g True lower_case tk c w'))"
proof -
  assume o: "out w = out w'"
  then have "out w = out (w'\<lparr>db := db w' @ [KeywordRow tk]\<rparr>)" by simp
  from gemet_labels_sim [OF this] o show ?thesis
    by (auto simp: gemet_store_keyword_def split: sum.splits)
qed

lemma gemet_concepts_sim:
  "out w = out w' \<Longrightarrow>
   out (gemet_concepts rejects g False defaultlang lower_case th cs w)
     = out (gemet_concepts accepting g True defaultlang lower_case th cs w')"
proof (induction cs arbitrary: w w')
  case Nil
  then show ?case by simp
next
  case (Cons c cs)
  show ?case
  proof (cases "gemet_pref g c defaultlang lower_case")
    case (Inl e)
    then show ?thesis using Cons.IH [OF Cons.prems] by simp
  next
    case (Inr pref)
    let ?m = "''Concept: '' @ pref @ '' ('' @ apply_lower_case (str c) lower_case @ '')''"
    let ?tk = "\<lparr>thesaurus = th, tk_about = apply_lower_case (str c) lower_case, alt_label = pref\<rparr>"
    obtain r w2 where r: "gemet_store_keyword rejects g False lower_case ?tk c
        (stderr_write SUCCESS ?m w) = (r, w2)"
      by (cases "gemet_store_keyword rejects g False lower_case ?tk c (stderr_write SUCCESS ?m w)")
    obtain r' w2' where r': "gemet_store_keyword accepting g True lower_case ?tk c
        (stderr_write SUCCESS ?m w') = (r', w2')"
      by (cases "gemet_store_keyword accepting g True lower_case ?tk c (stderr_write SUCCESS ?m w')")
    have "out (stderr_write SUCCESS ?m w) = out (stderr_write SUCCESS ?m w')"
      using Cons.prems by simp
    from gemet_store_keyword_sim [OF this, of rejects g lower_case ?tk c]
    have eq: "r' = r" "out w2 = out w2'" using r r' by simp_all
    show ?thesis
    proof (cases r)
      case None
      then have "r' = None" using eq by simp
      then show ?thesis using Inr r r' None Cons.IH [OF eq(2)] by (simp add: Let_def)
    next
      case (Some e)
      then have r'e: "r' = Some e" using eq by simp
      let ?p = "''could not save: '' @ pref @ '', duplicate ...''"
      have "out (stdout_print ?p w2) = out (stdout_print ?p w2')" using eq by simp
      from Cons.IH [OF this] show ?thesis
        using Inr r r' r'e Some by (simp add: Let_def)
    qed
  qed
qed

lemma gemet_load_sim:
  "fst (gemet_load_thesaurus rejects g f name dl False lc w)
     = fst (gemet_load_thesaurus accepting g f name dl True lc w)
   \<and> out (snd (gemet_load_thesaurus rejects g f name dl False lc w))
     = out (snd (gemet_load_thesaurus accepting g f name dl True lc w))"
  unfolding gemet_load_thesaurus_def Let_def
  by (auto split: option.splits sum.splits intro!: gemet_concepts_sim)

text \<open>
  Claim C8. A dry run (\<open>--dry-run\<close>, so \<open>store = False\<close>) of either loader leaves the
  sink as it was, whatever the input and whatever the sink would reject: no Thesaurus,
  ThesaurusKeyword or ThesaurusKeywordLabel row is saved. It still does all the resolution
  and logging: its outcome and its output are those of the storing run on a sink that
  accepts every row.
\<close>

theorem dry_run_saves_nothing:
  "db (snd (agrovoc_handle rejects g file_opt name_opt t d True dl lc w)) = db w
   \<and> db (snd (gemet_handle rejects g file_opt name_opt True dl lc w)) = db w
   \<and> fst (agrovoc_handle rejects g file_opt name_opt t d True dl lc w)
       = fst (agrovoc_handle accepting g file_opt name_opt t d False dl lc w)
   \<and> out (snd (agrovoc_handle rejects g file_opt name_opt t d True dl lc w))
       = out (snd (agrovoc_handle accepting g file_opt name_opt t d False dl lc w))
   \<and> fst (gemet_handle rejects g file_opt name_opt True dl lc w)
       = fst (gemet_handle accepting g file_opt name_opt False dl lc w)
   \<and> out (snd (gemet_handle rejects g file_opt name_opt True dl lc w))
       = out (snd (gemet_handle accepting g file_opt name_opt False dl lc w))"
  by (simp add: agrovoc_handle_def gemet_handle_def agrovoc_load_dry gemet_load_dry
        agrovoc_load_sim gemet_load_sim split: option.splits)

section \<open>The rows a run saves\<close>

lemma save_Inr: "save rejects r w = Inr w' \<Longrightarrow> w' = w\<lparr>db := db w @ [r]\<rparr>"
  by (auto simp: save_def split: if_splits)

lemma label_row_of_mono:
  "label_row_of lc tk xs r \<Longrightarrow> set xs \<subseteq> set ys \<Longrightarrow> label_row_of lc tk ys r"
  by (auto simp: label_row_of_def list_ex_iff split: row.splits)

lemma agrovoc_labels_rows:
  "\<exists>news. db (snd (agrovoc_labels rejects g store lc tk ns i w)) = db w @ news
     \<and> list_all (label_row_of lc tk (map (\<lambda>t. as_Literal (graph_value g t SKOS_XL_literalForm)) ns)) news"
proof (induction ns arbitrary: i w)
  case Nil
  show ?case by simp
next
  case (Cons n ns)
  let ?lf = "\<lambda>t. as_Literal (graph_value g t SKOS_XL_literalForm)"
  let ?x = "?lf n"
  have mono: "\<And>news. list_all (label_row_of lc tk (map ?lf ns)) news
      \<Longrightarrow> list_all (label_row_of lc tk (map ?lf (n # ns))) news"
    by (auto simp: list_all_iff intro: label_row_of_mono)
  have skip: "\<And>j v. \<exists>news. db (snd (agrovoc_labels rejects g store lc tk ns j v)) = db v @ news
      \<and> list_all (label_row_of lc tk (map ?lf (n # ns))) news"
    using Cons.IH mono by blast
  show ?case
  proof (cases "apply_lower_case_language (language ?x) lc")
    case (Inl e)
    then show ?thesis by (simp add: Let_def)
  next
    case (Inr lgo)
    show ?thesis
    proof (cases lgo)
      case None
      then show ?thesis using Inr skip [of i w] by (simp add: Let_def)
    next
      case (Some lg)
      show ?thesis
      proof (cases "lg \<in> set SUPPORTED_LANGUAGES")
        case False
        then show ?thesis using Inr Some skip [of i w] by (simp add: Let_def)
      next
        case True
        let ?tkl = "\<lparr>keyword = tk, lang = lg, label = apply_lower_case (lexical ?x) lc\<rparr>"
        have src: "label_row_of lc tk (map ?lf (n # ns)) (LabelRow ?tkl)"
          using Inr Some True
          by (auto simp: label_row_of_def label_source_def apply_lower_case_language_def
                apply_lower_case_def split: if_splits option.splits)
        show ?thesis
        proof (cases "store \<and> \<not> rejects (db w) (LabelRow ?tkl)")
          case False
          then show ?thesis
            using Inr Some True skip [of "i + 1" w]
              skip [of "i + 1" "stderr_write ERROR
                 (''could not add label: '' @ apply_lower_case (lexical ?x) lc @ '' with language: '' @ lg
                    @ '') to database, skipping entry ...'') w"]
            by (auto simp: Let_def save_def stderr_write_def)
        next
          case saved: True
          obtain news where news:
            "db (snd (agrovoc_labels rejects g store lc tk ns (i + 1) (w\<lparr>db := db w @ [LabelRow ?tkl]\<rparr>)))
               = db w @ [LabelRow ?tkl] @ news"
            "list_all (label_row_of lc tk (map ?lf (n # ns))) news"
            using skip [of "i + 1" "w\<lparr>db := db w @ [LabelRow ?tkl]\<rparr>"] by auto
          have "list_all (label_row_of lc tk (map ?lf (n # ns))) (LabelRow ?tkl # news)"
            using src news(2) by simp
          then show ?thesis
            using Inr Some True saved news(1)
            by (auto simp: Let_def save_def intro!: exI [of _ "LabelRow ?tkl # news"])
        qed
      qed
    qed
  qed
qed


lemma concept_row_of_mono:
  "concept_row_of lc th src cs r \<Longrightarrow> set cs \<subseteq> set ds \<Longrightarrow> concept_row_of lc th src ds r"
  by (auto simp: concept_row_of_def list_ex_iff split: row.splits)

lemma label_row_concept_row:
  "label_row_of lc tk (src c) r \<Longrightarrow> thesaurus tk = th \<Longrightarrow> concept_row_of lc th src (c # cs) r"
  by (auto simp: concept_row_of_def label_row_of_def split: row.splits)

lemma agrovoc_concepts_rows:
  "\<exists>news. db (snd (agrovoc_concepts rejects g store dl lc th cs w)) = db w @ news
     \<and> list_all (concept_row_of lc th (preflabel_literals g) cs) news"
proof (induction cs arbitrary: w)
  case Nil
  show ?case by simp
next
  case (Cons c cs)
  have skip: "\<And>v. \<exists>news. db (snd (agrovoc_concepts rejects g store dl lc th cs v)) = db v @ news
      \<and> list_all (concept_row_of lc th (preflabel_literals g) (c # cs)) news"
  proof -
    fix v
    obtain news where "db (snd (agrovoc_concepts rejects g store dl lc th cs v)) = db v @ news"
      "list_all (concept_row_of lc th (preflabel_literals g) cs) news"
      using Cons.IH by blast
    then show "\<exists>news. db (snd (agrovoc_concepts rejects g store dl lc th cs v)) = db v @ news
      \<and> list_all (concept_row_of lc th (preflabel_literals g) (c # cs)) news"
      by (auto simp: list_all_iff intro: concept_row_of_mono)
  qed
  show ?case
  proof (cases "get_default_language_preflabel g c dl")
    case None
    then show ?thesis using skip [of w] by simp
  next
    case (Some found)
    let ?tk = "\<lparr>thesaurus = th, tk_about = apply_lower_case (str c) lc,
                 alt_label = apply_lower_case found lc\<rparr>"
    show ?thesis
    proof (cases "store \<and> rejects (db w) (KeywordRow ?tk)")
      case True
      then show ?thesis using Some by (simp add: Let_def save_def)
    next
      case False
      define kw where "kw = (if store then [KeywordRow ?tk] else [])"
      define w1 where "w1 = w\<lparr>db := db w @ kw\<rparr>"
      have sv: "(if store then save rejects (KeywordRow ?tk) w else Inr w) = Inr w1"
        using False by (auto simp: save_def w1_def kw_def)
      have kwok: "list_all (concept_row_of lc th (preflabel_literals g) (c # cs)) kw"
        by (simp add: kw_def concept_row_of_def)
      obtain r w2 where r: "agrovoc_labels rejects g store lc ?tk
          (objects g c SKOS_XL_prefLabel) 0 w1 = (r, w2)"
        by (cases "agrovoc_labels rejects g store lc ?tk (objects g c SKOS_XL_prefLabel) 0 w1")
      obtain ls where ls: "db w2 = db w1 @ ls"
        "list_all (label_row_of lc ?tk (preflabel_literals g c)) ls"
        using agrovoc_labels_rows [of rejects g store lc ?tk "objects g c SKOS_XL_prefLabel" 0 w1] r
        by (auto simp: preflabel_literals_def)
      have lsok: "list_all (concept_row_of lc th (preflabel_literals g) (c # cs)) ls"
        using ls(2) by (auto simp: list_all_iff intro: label_row_concept_row)
      have w2: "db w2 = db w @ (kw @ ls)" using ls(1) by (simp add: w1_def)
      show ?thesis
      proof (cases r)
        case (Inl e)
        then show ?thesis
          using Some sv r w2 kwok lsok
          by (auto simp: Let_def intro!: exI [of _ "kw @ ls"])
      next
        case (Inr j)
        let ?w3 = "stderr_write SUCCESS
             ('' set alt_label: '' @ apply_lower_case found lc @ '': ('' @ str_nat j @ '')'') w2"
        obtain more_rows where m: "db (snd (agrovoc_concepts rejects g store dl lc th cs ?w3))
             = db ?w3 @ more_rows"
          "list_all (concept_row_of lc th (preflabel_literals g) (c # cs)) more_rows"
          using skip [of ?w3] by blast
        have "db (snd (agrovoc_concepts rejects g store dl lc th cs ?w3))
             = db w @ (kw @ ls @ more_rows)"
          using m(1) w2 by (simp add: stderr_write_def)
        then show ?thesis
          using Some sv r Inr kwok lsok m(2)
          by (auto simp: Let_def intro!: exI [of _ "kw @ ls @ more_rows"])
      qed
    qed
  qed
qed


lemma agrovoc_load_rows:
  "(\<forall>lc. db (snd (agrovoc_load_thesaurus rejects g f name store t d dl lc w)) = db w)
   \<or> (\<exists>th. \<forall>lc. \<exists>rest.
          db (snd (agrovoc_load_thesaurus rejects g f name store t d dl lc w))
            = db w @ ThesaurusRow th # rest
          \<and> list_all (concept_row_of lc th (preflabel_literals g)
                (subjects g SKOS_inScheme AGROVOC_ConceptSchemeURI)) rest)"
proof (cases store)
  case False
  then show ?thesis by (simp add: agrovoc_load_dry)
next
  case True
  let ?w1 = "case f of UploadedFile n \<Rightarrow>
                 stderr_write WARNING (''Guessing RDF format from '' @ n @ ''...'') w
             | Path p \<Rightarrow> w"
  let ?w3 = "stderr_write SUCCESS (''Successful parsed file: '' @ file_name f @ '' ...'')
               (stderr_write SUCCESS (''Starting to parsed file: '' @ file_name f @ '' ...'') ?w1)"
  have w3: "db ?w3 = db w" by (cases f) simp_all
  show ?thesis
  proof (cases "isoformat (modified_literal g)")
    case None
    then show ?thesis using w3 by (simp add: agrovoc_load_thesaurus_def)
  next
    case (Some thesaurus_date)
    note dt = Some
    show ?thesis
    proof (cases "graph_value_unique g RDF_type SKOS_ConceptScheme")
      case (Inl e)
      then show ?thesis using dt w3 by (simp add: agrovoc_load_thesaurus_def)
    next
      case (Inr so)
      show ?thesis
      proof (cases so)
        case None
        then show ?thesis using dt Inr w3 by (simp add: agrovoc_load_thesaurus_def)
      next
        case (Some scheme)
        note sc = Inr Some
        show ?thesis
        proof (cases "value_for_language (literals (objects_any g scheme)) dl")
          case (Inl e)
          then show ?thesis using dt sc w3 by (simp add: agrovoc_load_thesaurus_def)
        next
          case (Inr thesaurus_title)
          let ?desc = "case graph_value g scheme DC_description of
                         None \<Rightarrow> thesaurus_title | Some d \<Rightarrow> str d"
          let ?th = "\<lparr>identifier = name, description = ?desc, title = thesaurus_title,
                       about = str scheme, date = thesaurus_date\<rparr>"
          show ?thesis
          proof (cases "rejects (db w) (ThesaurusRow ?th)")
            case rej: True
            then show ?thesis
              using dt sc Inr w3 True
              by (simp add: agrovoc_load_thesaurus_def save_def Let_def)
          next
            case acc: False
            let ?w5 = "stderr_write SUCCESS
                        (''Thesaurus '' @ [CHR 0x22] @ t @ [CHR 0x22] @ '', desc: ''
                           @ ?desc @ '' issued at '' @ thesaurus_date)
                        (?w3\<lparr>db := db ?w3 @ [ThesaurusRow ?th]\<rparr>)"
            have w5: "db ?w5 = db w @ [ThesaurusRow ?th]" using w3 by simp
            have run: "\<And>lc. agrovoc_load_thesaurus rejects g f name store t d dl lc w
                = agrovoc_concepts rejects g store dl lc ?th
                    (subjects g SKOS_inScheme AGROVOC_ConceptSchemeURI) ?w5"
              using dt sc Inr w3 True acc
              by (simp add: agrovoc_load_thesaurus_def save_def Let_def)
            have "\<forall>lc. \<exists>rest.
                db (snd (agrovoc_load_thesaurus rejects g f name store t d dl lc w))
                  = db w @ ThesaurusRow ?th # rest
                \<and> list_all (concept_row_of lc ?th (preflabel_literals g)
                      (subjects g SKOS_inScheme AGROVOC_ConceptSchemeURI)) rest"
            proof
              fix lc
              obtain news where
                "db (snd (agrovoc_concepts rejects g store dl lc ?th
                    (subjects g SKOS_inScheme AGROVOC_ConceptSchemeURI) ?w5)) = db ?w5 @ news"
                "list_all (concept_row_of lc ?th (preflabel_literals g)
                      (subjects g SKOS_inScheme AGROVOC_ConceptSchemeURI)) news"
                using agrovoc_concepts_rows by blast
              then show "\<exists>rest.
                db (snd (agrovoc_load_thesaurus rejects g f name store t d dl lc w))
                  = db w @ ThesaurusRow ?th # rest
                \<and> list_all (concept_row_of lc ?th (preflabel_literals g)
                      (subjects g SKOS_inScheme AGROVOC_ConceptSchemeURI)) rest"
                unfolding run w5 by auto
            qed
            then show ?thesis by blast
          qed
        qed
      qed
    qed
  qed
qed


lemma gemet_labels_rows:
  "\<exists>news. db (snd (gemet_labels rejects store lc tk ps w)) = db w @ news
     \<and> list_all (label_row_of lc tk (literals (map snd ps))) news"
proof (induction ps arbitrary: w)
  case Nil
  show ?case by simp
next
  case (Cons p ps)
  obtain labelProp n where p: "p = (labelProp, n)" by (cases p)
  have sub: "set (literals (map snd ps)) \<subseteq> set (literals (map snd (p # ps)))"
    by (cases n) (auto simp: p)
  have skip: "\<And>v. \<exists>news. db (snd (gemet_labels rejects store lc tk ps v)) = db v @ news
      \<and> list_all (label_row_of lc tk (literals (map snd (p # ps)))) news"
  proof -
    fix v
    obtain news where "db (snd (gemet_labels rejects store lc tk ps v)) = db v @ news"
      "list_all (label_row_of lc tk (literals (map snd ps))) news"
      using Cons.IH by blast
    then show "\<exists>news. db (snd (gemet_labels rejects store lc tk ps v)) = db v @ news
      \<and> list_all (label_row_of lc tk (literals (map snd (p # ps)))) news"
      using sub by (auto simp: list_all_iff intro: label_row_of_mono)
  qed
  show ?case
  proof (cases n)
    case (URIRef u)
    then show ?thesis by (simp add: p)
  next
    case (BNode b)
    then show ?thesis by (simp add: p)
  next
    case (Lit x)
    show ?thesis
    proof (cases "apply_lower_case_language (language x) lc")
      case (Inl e)
      then show ?thesis by (simp add: p Lit)
    next
      case (Inr lgo)
      show ?thesis
      proof (cases lgo)
        case None
        then show ?thesis using Inr skip [of w] by (simp add: p Lit)
      next
        case (Some lg)
        show ?thesis
        proof (cases "lg \<in> set SUPPORTED_LANGUAGES")
          case False
          then show ?thesis using Inr Some skip [of w] by (simp add: p Lit Let_def)
        next
          case True
          let ?tkl = "\<lparr>keyword = tk, lang = lg, label = apply_lower_case (lexical x) lc\<rparr>"
          let ?w1 = "stderr_write SUCCESS
                (''  Label '' @ lg @ '': '' @ apply_lower_case (lexical x) lc) w"
          have src: "label_row_of lc tk (literals (map snd (p # ps))) (LabelRow ?tkl)"
            using Inr Some True
            by (auto simp: p Lit label_row_of_def label_source_def apply_lower_case_language_def
                  apply_lower_case_def split: if_splits option.splits)
          show ?thesis
          proof (cases store)
            case False
            then show ?thesis using Inr Some True skip [of ?w1] by (simp add: p Lit Let_def)
          next
            case st: True
            show ?thesis
            proof (cases "rejects (db w) (LabelRow ?tkl)")
              case True
              then show ?thesis
                using Inr Some \<open>lg \<in> set SUPPORTED_LANGUAGES\<close> st
                by (simp add: p Lit Let_def save_def)
            next
              case False
              obtain news where news:
                "db (snd (gemet_labels rejects store lc tk ps (?w1\<lparr>db := db ?w1 @ [LabelRow ?tkl]\<rparr>)))
                   = db w @ [LabelRow ?tkl] @ news"
                "list_all (label_row_of lc tk (literals (map snd (p # ps)))) news"
                using skip [of "?w1\<lparr>db := db ?w1 @ [LabelRow ?tkl]\<rparr>"] by auto
              have "list_all (label_row_of lc tk (literals (map snd (p # ps)))) (LabelRow ?tkl # news)"
                using src news(2) by simp
              then show ?thesis
                using Inr Some \<open>lg \<in> set SUPPORTED_LANGUAGES\<close> st False news(1)
                by (auto simp: p Lit Let_def save_def intro!: exI [of _ "LabelRow ?tkl # news"])
            qed
          qed
        qed
      qed
    qed
  qed
qed

lemma filter_labels_None: "filter_labels None ns = Inr ns"
  by (induction ns) simp_all

lemma preferredLabel_None_total:
  "\<exists>ps. preferredLabel g c None d props = Inr ps"
  by (induction props) (simp_all add: filter_labels_None)

lemma preferredLabel_None_literals:
  "preferredLabel g c None [] label_properties = Inr ps
     \<Longrightarrow> set (literals (map snd ps)) \<subseteq> set (gemet_label_literals g c)"
  by (auto simp: label_properties_def filter_labels_None gemet_label_literals_def comp_def
        split: if_splits)

lemma gemet_store_keyword_rows:
  "thesaurus tk = th \<Longrightarrow>
   \<exists>news. db (snd (gemet_store_keyword rejects g store lc tk c w)) = db w @ news
     \<and> list_all (concept_row_of lc th (gemet_label_literals g) (c # cs)) news"
proof -
  assume th: "thesaurus tk = th"
  show ?thesis
  proof (cases "store \<and> rejects (db w) (KeywordRow tk)")
    case True
    then show ?thesis by (simp add: gemet_store_keyword_def save_def)
  next
    case False
    define kw where "kw = (if store then [KeywordRow tk] else [])"
    define w1 where "w1 = w\<lparr>db := db w @ kw\<rparr>"
    have sv: "(if store then save rejects (KeywordRow tk) w else Inr w) = Inr w1"
      using False by (auto simp: save_def w1_def kw_def)
    have kwok: "list_all (concept_row_of lc th (gemet_label_literals g) (c # cs)) kw"
      using th by (simp add: kw_def concept_row_of_def)
    obtain ps where ps: "preferredLabel g c None [] label_properties = Inr ps"
      using preferredLabel_None_total by blast
    obtain ls where ls: "db (snd (gemet_labels rejects store lc tk ps w1)) = db w1 @ ls"
      "list_all (label_row_of lc tk (literals (map snd ps))) ls"
      using gemet_labels_rows by blast
    have "list_all (label_row_of lc tk (gemet_label_literals g c)) ls"
      using ls(2) preferredLabel_None_literals [OF ps]
      by (auto simp: list_all_iff intro: label_row_of_mono)
    then have lsok: "list_all (concept_row_of lc th (gemet_label_literals g) (c # cs)) ls"
      using th by (auto simp: list_all_iff intro: label_row_concept_row)
    have "db (snd (gemet_labels rejects store lc tk ps w1)) = db w @ (kw @ ls)"
      using ls(1) by (simp add: w1_def)
    then show ?thesis
      using sv ps kwok lsok
      by (auto simp: gemet_store_keyword_def intro!: exI [of _ "kw @ ls"])
  qed
qed

lemma gemet_concepts_rows:
  "\<exists>news. db (gemet_concepts rejects g store dl lc th cs w) = db w @ news
     \<and> list_all (concept_row_of lc th (gemet_label_literals g) cs) news"
proof (induction cs arbitrary: w)
  case Nil
  show ?case by simp
next
  case (Cons c cs)
  have skip: "\<And>v. \<exists>news. db (gemet_concepts rejects g store dl lc th cs v) = db v @ news
      \<and> list_all (concept_row_of lc th (gemet_label_literals g) (c # cs)) news"
  proof -
    fix v
    obtain news where "db (gemet_concepts rejects g store dl lc th cs v) = db v @ news"
      "list_all (concept_row_of lc th (gemet_label_literals g) cs) news"
      using Cons.IH by blast
    then show "\<exists>news. db (gemet_concepts rejects g store dl lc th cs v) = db v @ news
      \<and> list_all (concept_row_of lc th (gemet_label_literals g) (c # cs)) news"
      by (auto simp: list_all_iff intro: concept_row_of_mono)
  qed
  show ?case
  proof (cases "gemet_pref g c dl lc")
    case (Inl e)
    then show ?thesis using skip [of w] by simp
  next
    case (Inr pref)
    let ?tk = "\<lparr>thesaurus = th, tk_about = apply_lower_case (str c) lc, alt_label = pref\<rparr>"
    let ?w1 = "stderr_write SUCCESS
          (''Concept: '' @ pref @ '' ('' @ apply_lower_case (str c) lc @ '')'') w"
    obtain r w2 where r: "gemet_store_keyword rejects g store lc ?tk c ?w1 = (r, w2)"
      by (cases "gemet_store_keyword rejects g store lc ?tk c ?w1")
    obtain ks where ks: "db w2 = db w @ ks"
      "list_all (concept_row_of lc th (gemet_label_literals g) (c # cs)) ks"
      using gemet_store_keyword_rows [of ?tk th rejects g store lc c ?w1 cs] r by auto
    define w3 where "w3 = (case r of
          Some e \<Rightarrow> stdout_print (''could not save: '' @ pref @ '', duplicate ...'') w2
        | None \<Rightarrow> w2)"
    have w3: "db w3 = db w @ ks" using ks(1) by (simp add: w3_def split: option.splits)
    have run: "gemet_concepts rejects g store dl lc th (c # cs) w
        = gemet_concepts rejects g store dl lc th cs w3"
      using Inr r by (simp add: Let_def w3_def split: option.splits)
    obtain more_rows where m: "db (gemet_concepts rejects g store dl lc th cs w3) = db w3 @ more_rows"
      "list_all (concept_row_of lc th (gemet_label_literals g) (c # cs)) more_rows"
      using skip [of w3] by blast
    show ?thesis
      unfolding run using m ks(2) w3
      by (auto intro!: exI [of _ "ks @ more_rows"])
  qed
qed


lemma gemet_load_rows:
  "(\<forall>lc. db (snd (gemet_load_thesaurus rejects g f name dl store lc w)) = db w)
   \<or> (\<exists>th. \<forall>lc. \<exists>rest.
          db (snd (gemet_load_thesaurus rejects g f name dl store lc w))
            = db w @ ThesaurusRow th # rest
          \<and> list_all (concept_row_of lc th (gemet_label_literals g)
                (subjects g RDF_type SKOS_Concept)) rest)"
proof (cases store)
  case False
  then show ?thesis by (simp add: gemet_load_dry)
next
  case True
  let ?w1 = "stderr_write SUCCESS ('' using defaultlang: '' @ dl @ '' ...'') w"
  let ?w2 = "case f of UploadedFile n \<Rightarrow>
                 stderr_write WARNING (''Guessing RDF format from '' @ n @ ''...'') ?w1
             | Path p \<Rightarrow> ?w1"
  have w2: "db ?w2 = db w" by (cases f) simp_all
  show ?thesis
  proof (cases "graph_value_unique g RDF_type SKOS_ConceptScheme")
    case (Inl e)
    then show ?thesis by (cases f) (simp_all add: gemet_load_thesaurus_def Let_def)
  next
    case (Inr so)
    show ?thesis
    proof (cases so)
      case None
      then show ?thesis using Inr by (cases f) (simp_all add: gemet_load_thesaurus_def Let_def)
    next
      case (Some scheme)
      note sc = Inr Some
      show ?thesis
      proof (cases "value_for_language (literals (objects_any g scheme)) dl")
        case (Inl e)
        then show ?thesis using sc by (cases f) (simp_all add: gemet_load_thesaurus_def Let_def)
      next
        case (Inr thesaurus_title)
        let ?desc = "case graph_value g scheme DC_description of
                       None \<Rightarrow> thesaurus_title | Some d \<Rightarrow> str d"
        let ?date = "case graph_value g scheme DCTERMS_issued of
                       None \<Rightarrow> ''2024-01-01'' | Some d \<Rightarrow> str d"
        let ?th = "\<lparr>identifier = name, description = ?desc, title = thesaurus_title,
                     about = str scheme, date = ?date\<rparr>"
        let ?w3 = "stderr_write SUCCESS
                      (''Thesaurus '' @ [CHR 0x22] @ thesaurus_title @ [CHR 0x22] @ '', desc: ''
                         @ ?desc @ '' issued at '' @ ?date) ?w2"
        show ?thesis
        proof (cases "rejects (db w) (ThesaurusRow ?th)")
          case rej: True
          then show ?thesis
            using sc Inr True
            by (cases f) (simp_all add: gemet_load_thesaurus_def save_def Let_def)
        next
          case acc: False
          let ?w4 = "?w3\<lparr>db := db ?w3 @ [ThesaurusRow ?th]\<rparr>"
          have w4: "db ?w4 = db w @ [ThesaurusRow ?th]" using w2 by simp
          have run: "\<And>lc. snd (gemet_load_thesaurus rejects g f name dl store lc w)
              = gemet_concepts rejects g store dl lc ?th (subjects g RDF_type SKOS_Concept) ?w4"
            using sc Inr True acc
            by (cases f) (simp_all add: gemet_load_thesaurus_def save_def Let_def)
          have "\<forall>lc. \<exists>rest.
              db (snd (gemet_load_thesaurus rejects g f name dl store lc w))
                = db w @ ThesaurusRow ?th # rest
              \<and> list_all (concept_row_of lc ?th (gemet_label_literals g)
                    (subjects g RDF_type SKOS_Concept)) rest"
          proof
            fix lc
            obtain news where
              "db (gemet_concepts rejects g store dl lc ?th
                  (subjects g RDF_type SKOS_Concept) ?w4) = db ?w4 @ news"
              "list_all (concept_row_of lc ?th (gemet_label_literals g)
                    (subjects g RDF_type SKOS_Concept)) news"
              using gemet_concepts_rows by blast
            then show "\<exists>rest.
              db (snd (gemet_load_thesaurus rejects g f name dl store lc w))
                = db w @ ThesaurusRow ?th # rest
              \<and> list_all (concept_row_of lc ?th (gemet_label_literals g)
                    (subjects g RDF_type SKOS_Concept)) rest"
              unfolding run w4 by auto
          qed
          then show ?thesis by blast
        qed
      qed
    qed
  qed
qed

lemma thesaurus_rows_append: "thesaurus_rows (xs @ ys) = thesaurus_rows xs @ thesaurus_rows ys"
  by (induction xs rule: thesaurus_rows.induct) simp_all

lemma concept_rows_no_thesaurus:
  "list_all (concept_row_of lc th src cs) rest \<Longrightarrow> thesaurus_rows rest = []"
  by (induction rest rule: thesaurus_rows.induct) (simp_all add: concept_row_of_def)

lemma concept_row_thesaurus:
  "concept_row_of lc th src cs r \<Longrightarrow> row_thesaurus r = th"
  by (cases r) (simp_all add: concept_row_of_def)

lemma concept_rows_thesaurus:
  "list_all (concept_row_of lc th src cs) rest \<Longrightarrow> row_thesaurus ` set rest \<subseteq> {th}"
  by (auto simp: list_all_iff dest: concept_row_thesaurus)

lemma rows_summary:
  assumes "(\<forall>lc. dbf lc = dbw)
   \<or> (\<exists>th. \<forall>lc. \<exists>rest. dbf lc = dbw @ ThesaurusRow th # rest
          \<and> list_all (concept_row_of lc th src cs) rest)"
  shows "thesaurus_rows (dbf True) = thesaurus_rows (dbf False)
     \<and> row_thesaurus ` set (drop (length dbw) (dbf True))
         = row_thesaurus ` set (drop (length dbw) (dbf False))"
  using assms
proof
  assume "\<forall>lc. dbf lc = dbw"
  then show ?thesis by simp
next
  assume "\<exists>th. \<forall>lc. \<exists>rest. dbf lc = dbw @ ThesaurusRow th # rest
          \<and> list_all (concept_row_of lc th src cs) rest"
  then obtain th where th: "\<And>lc. \<exists>rest. dbf lc = dbw @ ThesaurusRow th # rest
          \<and> list_all (concept_row_of lc th src cs) rest" by blast
  have one: "\<And>lc. thesaurus_rows (dbf lc) = thesaurus_rows dbw @ [th]
      \<and> row_thesaurus ` set (drop (length dbw) (dbf lc)) = {th}"
  proof -
    fix lc
    obtain rest where r: "dbf lc = dbw @ ThesaurusRow th # rest"
      "list_all (concept_row_of lc th src cs) rest" using th by blast
    show "thesaurus_rows (dbf lc) = thesaurus_rows dbw @ [th]
      \<and> row_thesaurus ` set (drop (length dbw) (dbf lc)) = {th}"
      using r(1) concept_rows_no_thesaurus [OF r(2)] concept_rows_thesaurus [OF r(2)]
      by (auto simp: thesaurus_rows_append)
  qed
  show ?thesis using one [of True] one [of False] by simp
qed

text \<open>
  Claim C10. The Thesaurus record does not depend on \<open>--force-lower-case\<close>: the Thesaurus
  rows in the sink after a run with case folding are those after the run without it
  (where nothing is folded), and so is the Thesaurus record carried by the rows the run
  added. Folding reaches only the keyword's \<open>about\<close> and \<open>alt_label\<close> and the label's
  \<open>lang\<close> and \<open>label\<close>.
\<close>

theorem thesaurus_record_never_folded:
  "thesaurus_rows (db (snd (agrovoc_load_thesaurus rejects g f name store t d dl True w)))
     = thesaurus_rows (db (snd (agrovoc_load_thesaurus rejects g f name store t d dl False w)))
   \<and> row_thesaurus ` set (new_rows w (agrovoc_load_thesaurus rejects g f name store t d dl True w))
     = row_thesaurus ` set (new_rows w (agrovoc_load_thesaurus rejects g f name store t d dl False w))
   \<and> thesaurus_rows (db (snd (gemet_load_thesaurus rejects g f name dl store True w)))
     = thesaurus_rows (db (snd (gemet_load_thesaurus rejects g f name dl store False w)))
   \<and> row_thesaurus ` set (new_rows w (gemet_load_thesaurus rejects g f name dl store True w))
     = row_thesaurus ` set (new_rows w (gemet_load_thesaurus rejects g f name dl store False w))"
  using rows_summary [OF agrovoc_load_rows [of rejects g f name store t d dl w]]
        rows_summary [OF gemet_load_rows [of rejects g f name dl store w]]
  by (simp add: new_rows_def)

text \<open>With case folding on, the titles \<open>AGROVOC\<close> and \<open>GEMET\<close> keep their capitals.\<close>

theorem thesaurus_record_never_folded_witness:
  "thesaurus_rows (db (snd (agrovoc_load_thesaurus accepting agrovoc_graph (Path ''a.rdf'')
       ''agrovoc'' True ''AGROVOC'' ''my text'' ''en'' True world0))) = [agrovoc_th]
   \<and> thesaurus_rows (db (snd (gemet_load_thesaurus accepting gemet_graph (Path ''g.rdf'')
       ''gemet'' ''en'' True True world0))) = [gemet_th]
   \<and> title agrovoc_th = ''AGROVOC'' \<and> title gemet_th = ''GEMET''"
proof -
  have a: "thesaurus_rows (db (snd (agrovoc_load_thesaurus accepting agrovoc_graph (Path ''a.rdf'')
       ''agrovoc'' True ''AGROVOC'' ''my text'' ''en'' False world0))) = [agrovoc_th]"
    by code_simp
  have b: "thesaurus_rows (db (snd (gemet_load_thesaurus accepting gemet_graph (Path ''g.rdf'')
       ''gemet'' ''en'' True False world0))) = [gemet_th]"
    by code_simp
  show ?thesis
    using a b
      thesaurus_record_never_folded [of accepting agrovoc_graph "Path ''a.rdf''" "''agrovoc''"
        True "''AGROVOC''" "''my text''" "''en''" world0]
      thesaurus_record_never_folded [of accepting gemet_graph "Path ''g.rdf''" "''gemet''"
        True "''AGROVOC''" "''my text''" "''en''" world0]
    by (simp add: agrovoc_th_def gemet_th_def)
qed

section \<open>The language whitelist\<close>

lemma label_rows_append: "label_rows (xs @ ys) = label_rows xs @ label_rows ys"
  by (induction xs rule: label_rows.induct) simp_all

lemma concept_rows_label_from:
  "list_all (concept_row_of lc th src cs) rest \<Longrightarrow> list_all (label_from lc src cs) (label_rows rest)"
proof (induction rest)
  case Nil
  show ?case by simp
next
  case (Cons r rs)
  then show ?case
    by (cases r)
       (auto simp: concept_row_of_def label_row_of_def label_from_def list_ex_iff)
qed

lemma rows_label_from:
  assumes "(\<forall>lc. dbf lc = dbw)
   \<or> (\<exists>th. \<forall>lc. \<exists>rest. dbf lc = dbw @ ThesaurusRow th # rest
          \<and> list_all (concept_row_of lc th src cs) rest)"
  shows "list_all (label_from lc src cs) (label_rows (drop (length dbw) (dbf lc)))"
  using assms
proof
  assume "\<forall>lc. dbf lc = dbw"
  then show ?thesis by simp
next
  assume "\<exists>th. \<forall>lc. \<exists>rest. dbf lc = dbw @ ThesaurusRow th # rest
          \<and> list_all (concept_row_of lc th src cs) rest"
  then obtain th rest where r: "dbf lc = dbw @ ThesaurusRow th # rest"
      "list_all (concept_row_of lc th src cs) rest" by blast
  show ?thesis
    using r(1) concept_rows_label_from [OF r(2)] by simp
qed

text \<open>
  Claim C6, as amended. Every ThesaurusKeywordLabel a run saves has a \<open>lang\<close> in the
  supported set, and was made from a label literal of one of the concepts whose language
  tag, folded when case folding is on, is that \<open>lang\<close>: no label is saved for a literal
  whose folded tag is outside the set.
\<close>

theorem saved_labels_supported:
  "list_all (label_from lc (preflabel_literals g)
        (subjects g SKOS_inScheme AGROVOC_ConceptSchemeURI))
     (label_rows (new_rows w (agrovoc_load_thesaurus rejects g f name store t d dl lc w)))
   \<and> list_all (label_from lc (gemet_label_literals g) (subjects g RDF_type SKOS_Concept))
     (label_rows (new_rows w (gemet_load_thesaurus rejects g f name dl store lc w)))"
  using rows_label_from [OF agrovoc_load_rows [of rejects g f name store t d dl w], of lc]
        rows_label_from [OF gemet_load_rows [of rejects g f name dl store w], of lc]
  by (simp add: new_rows_def)

theorem saved_labels_supported_witness:
  "map lang_label (label_rows (new_rows world0 (agrovoc_load_thesaurus accepting agrovoc_graph
       (Path ''a.rdf'') ''agrovoc'' True ''AGROVOC'' ''my text'' ''en'' False world0)))
     = [(''en'', ''Wheat''), (''en'', ''Rice'')]
   \<and> list_all (label_from False (preflabel_literals agrovoc_graph)
          (subjects agrovoc_graph SKOS_inScheme AGROVOC_ConceptSchemeURI))
        (label_rows (new_rows world0 (agrovoc_load_thesaurus accepting agrovoc_graph
       (Path ''a.rdf'') ''agrovoc'' True ''AGROVOC'' ''my text'' ''en'' False world0)))"
proof -
  have "map lang_label (label_rows (new_rows world0 (agrovoc_load_thesaurus accepting agrovoc_graph
       (Path ''a.rdf'') ''agrovoc'' True ''AGROVOC'' ''my text'' ''en'' False world0)))
     = [(''en'', ''Wheat''), (''en'', ''Rice'')]"
    by code_simp
  then show ?thesis
    using saved_labels_supported [of False agrovoc_graph world0 accepting "Path ''a.rdf''"
        "''agrovoc''" True "''AGROVOC''" "''my text''" "''en''"]
    by simp
qed

text \<open>
  Claim C6 as stated fails under \<open>--force-lower-case\<close>: the tag \<open>FR\<close> is not in the
  supported set, and a label \<open>fr\<close> is saved for the literal that carries it, in both
  loaders.
\<close>

theorem label_saved_for_unsupported_tag:
  "''FR'' \<notin> set SUPPORTED_LANGUAGES
   \<and> plain ''Ble'' (Some ''FR'') \<in> set (preflabel_literals agrovoc_graph (URIRef ''c_2''))
   \<and> map lang_label (label_rows (db (snd (agrovoc_load_thesaurus accepting agrovoc_graph
        (Path ''a.rdf'') ''agrovoc'' True ''AGROVOC'' ''my text'' ''en'' True world0))))
      = [(''en'', ''wheat''), (''fr'', ''ble''), (''en'', ''rice'')]
   \<and> plain ''Ble'' (Some ''FR'') \<in> set (gemet_label_literals gemet_graph (URIRef ''g_2''))
   \<and> map lang_label (label_rows (db (snd (gemet_load_thesaurus accepting gemet_graph
        (Path ''g.rdf'') ''gemet'' ''en'' True True world0))))
      = [(''en'', ''wheat''), (''de'', ''weizen''), (''fr'', ''ble'')]"
  by code_simp

section \<open>Where the loaders miss what they attempt\<close>

text \<open>
  Claim C4. The concepts \<open>c_1\<close> and \<open>g_1\<close> have no label in the default language \<open>en\<close>.
  Both loaders skip them (no keyword, no label) and go on to the next concepts, and the run
  does not fail; but neither writes an error line for them. In the AGROVOC loader the
  line is written in a branch that is never taken; in the GEMET loader the styled text is
  built and never written.
\<close>

theorem skipped_concept_not_logged:
  "get_default_language_preflabel agrovoc_graph (URIRef ''c_1'') ''en'' = None
   \<and> fst (agrovoc_load_thesaurus accepting agrovoc_graph (Path ''a.rdf'') ''agrovoc'' True
          ''AGROVOC'' ''my text'' ''en'' False world0) = None
   \<and> map tk_about (keyword_rows (db (snd (agrovoc_load_thesaurus accepting agrovoc_graph
          (Path ''a.rdf'') ''agrovoc'' True ''AGROVOC'' ''my text'' ''en'' False world0))))
        = [''c_2'', ''c_3'']
   \<and> out (snd (agrovoc_load_thesaurus accepting agrovoc_graph (Path ''a.rdf'') ''agrovoc'' True
          ''AGROVOC'' ''my text'' ''en'' False world0))
        = [Stderr SUCCESS ''Starting to parsed file: a.rdf ...'',
           Stderr SUCCESS ''Successful parsed file: a.rdf ...'',
           Stderr SUCCESS (''Thesaurus '' @ [CHR 0x22] @ ''AGROVOC'' @ [CHR 0x22]
              @ '', desc: AGROVOC issued at 2024-05-01T10:00:00''),
           Stderr SUCCESS '' set alt_label: Wheat: (1)'',
           Stderr SUCCESS '' set alt_label: Rice: (1)'']
   \<and> filter is_error_line (out (snd (agrovoc_load_thesaurus accepting agrovoc_graph
          (Path ''a.rdf'') ''agrovoc'' True ''AGROVOC'' ''my text'' ''en'' False world0))) = []
   \<and> gemet_pref gemet_graph (URIRef ''g_1'') ''en'' False = Inl IndexError
   \<and> map tk_about (keyword_rows (db (snd (gemet_load_thesaurus accepting gemet_graph
          (Path ''g.rdf'') ''gemet'' ''en'' True False world0)))) = [''g_2'']
   \<and> out (snd (gemet_load_thesaurus accepting gemet_graph (Path ''g.rdf'') ''gemet'' ''en''
          True False world0))
        = [Stderr SUCCESS '' using defaultlang: en ...'',
           Stderr SUCCESS (''Thesaurus '' @ [CHR 0x22] @ ''GEMET'' @ [CHR 0x22]
              @ '', desc: GEMET issued at 2024-01-01''),
           Stderr SUCCESS ''Concept: Wheat (g_2)'',
           Stderr SUCCESS ''  Label en: Wheat'',
           Stderr SUCCESS ''  Label de: Weizen'']"
  by code_simp

text \<open>
  Claim C5. In the AGROVOC loader \<open>tk.save()\<close> is outside any \<open>try\<close>: when the sink
  rejects the keyword of \<open>c_2\<close> the run ends with that error, nothing is logged, and \<open>c_3\<close>
  is never reached. In the GEMET loader one \<open>try\<close> holds the keyword's save and the whole
  loop over its labels: when the sink rejects the label \<open>en\<close> of \<open>g_2\<close>, its label \<open>de\<close>,
  which the sink accepts, is not saved either.
\<close>

theorem save_failure_not_contained:
  "agrovoc_load_thesaurus (rejects_about ''c_2'') agrovoc_graph (Path ''a.rdf'') ''agrovoc'' True
       ''AGROVOC'' ''my text'' ''en'' False world0
     = (Some SaveError,
        \<lparr>db = [ThesaurusRow agrovoc_th],
         out = [Stderr SUCCESS ''Starting to parsed file: a.rdf ...'',
                Stderr SUCCESS ''Successful parsed file: a.rdf ...'',
                Stderr SUCCESS (''Thesaurus '' @ [CHR 0x22] @ ''AGROVOC'' @ [CHR 0x22]
                   @ '', desc: AGROVOC issued at 2024-05-01T10:00:00'')]\<rparr>)
   \<and> map tk_about (keyword_rows (db (snd (agrovoc_load_thesaurus accepting agrovoc_graph
          (Path ''a.rdf'') ''agrovoc'' True ''AGROVOC'' ''my text'' ''en'' False world0))))
        = [''c_2'', ''c_3'']
   \<and> map lang_label (label_rows (db (snd (gemet_load_thesaurus (rejects_lang ''en'') gemet_graph
          (Path ''g.rdf'') ''gemet'' ''en'' True False world0)))) = []
   \<and> map lang_label (label_rows (db (snd (gemet_load_thesaurus accepting gemet_graph
          (Path ''g.rdf'') ''gemet'' ''en'' True False world0))))
        = [(''en'', ''Wheat''), (''de'', ''Weizen'')]"
  by code_simp

text \<open>
  Claim C9. The AGROVOC file has no description for its scheme. Whatever \<open>--description\<close>
  gives, and also when it is left out, the description saved is the resolved title: the
  argument is overwritten before it is read.
\<close>

theorem description_argument_ignored:
  "graph_value agrovoc_graph AGROVOC_ConceptSchemeURI DC_description = None
   \<and> map description (thesaurus_rows (db (snd (agrovoc_handle accepting agrovoc_graph
          (Some (Path ''a.rdf'')) (Some ''agrovoc'') ''AGROVOC'' (Some ''my text'') False ''en''
          False world0)))) = [''AGROVOC'']
   \<and> map description (thesaurus_rows (db (snd (agrovoc_handle accepting agrovoc_graph
          (Some (Path ''a.rdf'')) (Some ''agrovoc'') ''AGROVOC'' None False ''en''
          False world0)))) = [''AGROVOC'']
   \<and> default_description \<noteq> ''AGROVOC''"
  by code_simp

section \<open>Case folding and the whitelist\<close>

lemma lower_supported: "t \<in> set SUPPORTED_LANGUAGES \<Longrightarrow> lower t = t"
  by (auto simp: SUPPORTED_LANGUAGES_def lower_def lower_char_def less_eq_char_def)

lemma whitelisted_mono: "whitelisted False x \<Longrightarrow> whitelisted True x"
  by (auto simp: whitelisted_def apply_lower_case_def lower_supported split: option.splits)

lemma agrovoc_labels_exact:
  "list_all tagged (map (\<lambda>t. as_Literal (graph_value g t SKOS_XL_literalForm)) ns) \<Longrightarrow>
   fst (agrovoc_labels accepting g True lc tk ns i w) \<noteq> Inl e
   \<and> db (snd (agrovoc_labels accepting g True lc tk ns i w))
       = db w @ map (label_row lc tk)
           (filter (whitelisted lc) (map (\<lambda>t. as_Literal (graph_value g t SKOS_XL_literalForm)) ns))"
proof (induction ns arbitrary: i w)
  case Nil
  show ?case by simp
next
  case (Cons n ns)
  let ?x = "as_Literal (graph_value g n SKOS_XL_literalForm)"
  from Cons.prems obtain t where t: "language ?x = Some t" by (auto simp: tagged_def)
  from Cons.prems have rest: "list_all tagged (map (\<lambda>t. as_Literal (graph_value g t SKOS_XL_literalForm)) ns)"
    by simp
  have al: "apply_lower_case_language (Some t) lc = Inr (Some (apply_lower_case t lc))"
    by (simp add: apply_lower_case_language_def apply_lower_case_def)
  show ?case
  proof (cases "apply_lower_case t lc \<in> set SUPPORTED_LANGUAGES")
    case False
    then show ?thesis
      using Cons.IH [OF rest, of i w] t al
      by (simp add: Let_def whitelisted_def)
  next
    case True
    let ?tkl = "\<lparr>keyword = tk, lang = apply_lower_case t lc,
                  label = apply_lower_case (lexical ?x) lc\<rparr>"
    have "label_row lc tk ?x = LabelRow ?tkl"
      by (simp add: label_row_def language_key_def t)
    then show ?thesis
      using Cons.IH [OF rest, of "i + 1" "w\<lparr>db := db w @ [LabelRow ?tkl]\<rparr>"] t al True
      by (simp add: Let_def whitelisted_def)
  qed
qed


lemma agrovoc_concepts_exact:
  "list_all (\<lambda>c. list_all tagged (preflabel_literals g c)) cs \<Longrightarrow>
   fst (agrovoc_concepts accepting g True dl lc th cs w) = None
   \<and> db (snd (agrovoc_concepts accepting g True dl lc th cs w))
       = db w @ concat (map (agrovoc_expected lc g dl th) cs)"
proof (induction cs arbitrary: w)
  case Nil
  show ?case by simp
next
  case (Cons c cs)
  from Cons.prems have tg: "list_all tagged (preflabel_literals g c)"
    and rest: "list_all (\<lambda>c. list_all tagged (preflabel_literals g c)) cs" by simp_all
  show ?case
  proof (cases "get_default_language_preflabel g c dl")
    case None
    then show ?thesis using Cons.IH [OF rest, of w] by (simp add: agrovoc_expected_def)
  next
    case (Some found)
    let ?tk = "\<lparr>thesaurus = th, tk_about = apply_lower_case (str c) lc,
                 alt_label = apply_lower_case found lc\<rparr>"
    let ?w1 = "w\<lparr>db := db w @ [KeywordRow ?tk]\<rparr>"
    obtain r w2 where r: "agrovoc_labels accepting g True lc ?tk
          (objects g c SKOS_XL_prefLabel) 0 ?w1 = (r, w2)"
      by (cases "agrovoc_labels accepting g True lc ?tk (objects g c SKOS_XL_prefLabel) 0 ?w1")
    have ex: "\<And>e. r \<noteq> Inl e"
      "db w2 = db ?w1 @ map (label_row lc ?tk) (filter (whitelisted lc) (preflabel_literals g c))"
      using agrovoc_labels_exact [of g "objects g c SKOS_XL_prefLabel" lc ?tk 0 ?w1] tg r
      by (simp_all add: preflabel_literals_def)
    then obtain j where j: "r = Inr j" by (cases r) auto
    let ?w3 = "stderr_write SUCCESS
          ('' set alt_label: '' @ apply_lower_case found lc @ '': ('' @ str_nat j @ '')'') w2"
    have "db ?w3 = db w @ agrovoc_expected lc g dl th c"
      using ex(2) Some by (simp add: agrovoc_expected_def Let_def)
    then show ?thesis
      using Cons.IH [OF rest, of ?w3] Some r j by (simp add: Let_def)
  qed
qed

lemma gemet_labels_exact:
  "list_all is_literal (map snd ps) \<Longrightarrow> list_all tagged (literals (map snd ps)) \<Longrightarrow>
   fst (gemet_labels accepting True lc tk ps w) = None
   \<and> db (snd (gemet_labels accepting True lc tk ps w))
       = db w @ map (label_row lc tk) (filter (whitelisted lc) (literals (map snd ps)))"
proof (induction ps arbitrary: w)
  case Nil
  show ?case by simp
next
  case (Cons p ps)
  obtain labelProp n where p: "p = (labelProp, n)" by (cases p)
  from Cons.prems(1) obtain x where n: "n = Lit x" by (cases n) (auto simp: p)
  from Cons.prems obtain t where t: "language x = Some t" by (auto simp: p n tagged_def)
  from Cons.prems have rest: "list_all is_literal (map snd ps)"
      "list_all tagged (literals (map snd ps))"
    by (simp_all add: p n)
  have al: "apply_lower_case_language (Some t) lc = Inr (Some (apply_lower_case t lc))"
    by (simp add: apply_lower_case_language_def apply_lower_case_def)
  show ?case
  proof (cases "apply_lower_case t lc \<in> set SUPPORTED_LANGUAGES")
    case False
    then show ?thesis
      using Cons.IH [OF rest, of w] t al
      by (simp add: p n Let_def whitelisted_def)
  next
    case True
    let ?tkl = "\<lparr>keyword = tk, lang = apply_lower_case t lc,
                  label = apply_lower_case (lexical x) lc\<rparr>"
    let ?w1 = "stderr_write SUCCESS
          (''  Label '' @ apply_lower_case t lc @ '': '' @ apply_lower_case (lexical x) lc) w"
    have "label_row lc tk x = LabelRow ?tkl"
      by (simp add: label_row_def language_key_def t)
    then show ?thesis
      using Cons.IH [OF rest, of "?w1\<lparr>db := db ?w1 @ [LabelRow ?tkl]\<rparr>"] t al True
      by (simp add: p n Let_def whitelisted_def)
  qed
qed


lemma preferredLabel_None_eq:
  "preferredLabel g c None [] label_properties =
     Inr (if objects g c SKOS_prefLabel \<noteq> [] then map (Pair SKOS_prefLabel) (objects g c SKOS_prefLabel)
          else map (Pair RDFS_label) (objects g c RDFS_label))"
  by (simp add: label_properties_def filter_labels_None)

lemma gemet_store_keyword_exact:
  assumes "tagged_labels g c"
  shows "fst (gemet_store_keyword accepting g True lc tk c w) = None
   \<and> db (snd (gemet_store_keyword accepting g True lc tk c w))
       = db w @ KeywordRow tk # map (label_row lc tk)
           (filter (whitelisted lc)
              (if objects g c SKOS_prefLabel \<noteq> [] then literals (objects g c SKOS_prefLabel)
               else literals (objects g c RDFS_label)))"
proof (cases "objects g c SKOS_prefLabel \<noteq> []")
  case True
  let ?ps = "map (Pair SKOS_prefLabel) (objects g c SKOS_prefLabel)"
  have "list_all is_literal (map snd ?ps)" "list_all tagged (literals (map snd ?ps))"
    using assms by (simp_all add: tagged_labels_def gemet_label_literals_def comp_def)
  from gemet_labels_exact [OF this, of lc tk "w\<lparr>db := db w @ [KeywordRow tk]\<rparr>"]
  show ?thesis
    using True by (simp add: gemet_store_keyword_def preferredLabel_None_eq comp_def)
next
  case False
  let ?ps = "map (Pair RDFS_label) (objects g c RDFS_label)"
  have "list_all is_literal (map snd ?ps)" "list_all tagged (literals (map snd ?ps))"
    using assms by (simp_all add: tagged_labels_def gemet_label_literals_def comp_def)
  from gemet_labels_exact [OF this, of lc tk "w\<lparr>db := db w @ [KeywordRow tk]\<rparr>"]
  show ?thesis
    using False by (simp add: gemet_store_keyword_def preferredLabel_None_eq comp_def)
qed

lemma gemet_concepts_exact:
  "list_all (tagged_labels g) cs \<Longrightarrow>
   db (gemet_concepts accepting g True dl lc th cs w)
     = db w @ concat (map (gemet_expected lc g dl th) cs)"
proof (induction cs arbitrary: w)
  case Nil
  show ?case by simp
next
  case (Cons c cs)
  from Cons.prems have tg: "tagged_labels g c" and rest: "list_all (tagged_labels g) cs"
    by simp_all
  show ?case
  proof (cases "gemet_pref g c dl lc")
    case (Inl e)
    then show ?thesis using Cons.IH [OF rest, of w] by (simp add: gemet_expected_def)
  next
    case (Inr pref)
    let ?tk = "\<lparr>thesaurus = th, tk_about = apply_lower_case (str c) lc, alt_label = pref\<rparr>"
    let ?w1 = "stderr_write SUCCESS
          (''Concept: '' @ pref @ '' ('' @ apply_lower_case (str c) lc @ '')'') w"
    obtain r w2 where r: "gemet_store_keyword accepting g True lc ?tk c ?w1 = (r, w2)"
      by (cases "gemet_store_keyword accepting g True lc ?tk c ?w1")
    have ex: "r = None" "db w2 = db w @ gemet_expected lc g dl th c"
      using gemet_store_keyword_exact [OF tg, of lc ?tk ?w1] r Inr
      by (simp_all add: gemet_expected_def Let_def)
    show ?thesis
      using Cons.IH [OF rest, of w2] Inr r ex by (simp add: Let_def)
  qed
qed

text \<open>
  Claim C7, as amended. The whitelist test is made on the folded tag: with a sink that
  accepts every row and label literals that are all tagged, the rows saved for the
  concepts are, for each concept with a canonical label, its keyword and one label for
  each literal whose tag, lower-cased when \<open>--force-lower-case\<close> is on, is in the supported
  set; \<open>about\<close>, \<open>alt_label\<close>, \<open>lang\<close> and \<open>label\<close> are lower-cased then. A literal
  selected without case folding is selected with it as well.
\<close>

theorem whitelist_on_folded_tag:
  assumes "list_all (\<lambda>c. list_all tagged (preflabel_literals g c)) cs"
    and "list_all (tagged_labels g') cs'"
  shows "db (snd (agrovoc_concepts accepting g True dl lc th cs w))
           = db w @ concat (map (agrovoc_expected lc g dl th) cs)
     \<and> db (gemet_concepts accepting g' True dl lc th cs' w)
           = db w @ concat (map (gemet_expected lc g' dl th) cs')
     \<and> (whitelisted lc x \<longleftrightarrow>
          (case language x of None \<Rightarrow> False
           | Some t \<Rightarrow> (if lc then lower t else t) \<in> set SUPPORTED_LANGUAGES))
     \<and> (whitelisted False x \<longrightarrow> whitelisted True x)"
proof -
  have a: "db (snd (agrovoc_concepts accepting g True dl lc th cs w))
           = db w @ concat (map (agrovoc_expected lc g dl th) cs)"
    using agrovoc_concepts_exact [OF assms(1), of dl lc th w] by simp
  have b: "db (gemet_concepts accepting g' True dl lc th cs' w)
           = db w @ concat (map (gemet_expected lc g' dl th) cs')"
    using gemet_concepts_exact [OF assms(2), of dl lc th w] by simp
  have c: "whitelisted lc x \<longleftrightarrow>
          (case language x of None \<Rightarrow> False
           | Some t \<Rightarrow> (if lc then lower t else t) \<in> set SUPPORTED_LANGUAGES)"
    by (cases "language x") (simp_all add: whitelisted_def apply_lower_case_def)
  have d: "whitelisted False x \<longrightarrow> whitelisted True x"
    using whitelisted_mono by blast
  show ?thesis using a b c d by blast
qed


text \<open>On the two example files, with case folding: the tag \<open>FR\<close> passes.\<close>

theorem whitelist_on_folded_tag_witness:
  "list_all (\<lambda>c. list_all tagged (preflabel_literals agrovoc_graph c))
       [URIRef ''c_1'', URIRef ''c_2'', URIRef ''c_3'']
   \<and> list_all (tagged_labels gemet_graph) [URIRef ''g_1'', URIRef ''g_2'']
   \<and> db (snd (agrovoc_concepts accepting agrovoc_graph True ''en'' True agrovoc_th
          [URIRef ''c_1'', URIRef ''c_2'', URIRef ''c_3''] world0))
       = concat (map (agrovoc_expected True agrovoc_graph ''en'' agrovoc_th)
           [URIRef ''c_1'', URIRef ''c_2'', URIRef ''c_3''])
   \<and> label_pairs (concat (map (agrovoc_expected True agrovoc_graph ''en'' agrovoc_th)
           [URIRef ''c_1'', URIRef ''c_2'', URIRef ''c_3'']))
       = [(''c_2'', ''en''), (''c_2'', ''fr''), (''c_3'', ''en'')]
   \<and> db (gemet_concepts accepting gemet_graph True ''en'' True agrovoc_th
          [URIRef ''g_1'', URIRef ''g_2''] world0)
       = concat (map (gemet_expected True gemet_graph ''en'' agrovoc_th)
           [URIRef ''g_1'', URIRef ''g_2''])
   \<and> label_pairs (concat (map (gemet_expected True gemet_graph ''en'' agrovoc_th)
           [URIRef ''g_1'', URIRef ''g_2'']))
       = [(''g_2'', ''en''), (''g_2'', ''de''), (''g_2'', ''fr'')]
   \<and> whitelisted True (plain ''Ble'' (Some ''FR''))
   \<and> \<not> whitelisted False (plain ''Ble'' (Some ''FR''))"
proof -
  have h1: "list_all (\<lambda>c. list_all tagged (preflabel_literals agrovoc_graph c))
       [URIRef ''c_1'', URIRef ''c_2'', URIRef ''c_3'']"
    by code_simp
  have h2: "list_all (tagged_labels gemet_graph) [URIRef ''g_1'', URIRef ''g_2'']"
    by code_simp
  have p1: "label_pairs (concat (map (agrovoc_expected True agrovoc_graph ''en'' agrovoc_th)
           [URIRef ''c_1'', URIRef ''c_2'', URIRef ''c_3'']))
       = [(''c_2'', ''en''), (''c_2'', ''fr''), (''c_3'', ''en'')]"
    by code_simp
  have p2: "label_pairs (concat (map (gemet_expected True gemet_graph ''en'' agrovoc_th)
           [URIRef ''g_1'', URIRef ''g_2'']))
       = [(''g_2'', ''en''), (''g_2'', ''de''), (''g_2'', ''fr'')]"
    by code_simp
  have p3: "whitelisted True (plain ''Ble'' (Some ''FR''))
       \<and> \<not> whitelisted False (plain ''Ble'' (Some ''FR''))"
    by code_simp
  have w0: "db world0 = []" by (simp add: world0_def)
  show ?thesis
    using h1 h2 p1 p2 p3
      whitelist_on_folded_tag [OF h1 h2, of "''en''" True agrovoc_th world0
        "plain ''Ble'' (Some ''FR'')"]
    by (simp add: w0)
qed

text \<open>
  Claim C7 as stated fails: on the same file the run with \<open>--force-lower-case\<close> selects
  the pair of \<open>c_2\<close> (or \<open>g_2\<close>) with \<open>fr\<close>, from the tag \<open>FR\<close>, and the run without it
  does not.
\<close>

theorem folding_changes_selection:
  "label_pairs (db (snd (agrovoc_load_thesaurus accepting agrovoc_graph (Path ''a.rdf'')
       ''agrovoc'' True ''AGROVOC'' ''my text'' ''en'' False world0)))
     = [(''c_2'', ''en''), (''c_3'', ''en'')]
   \<and> label_pairs (db (snd (agrovoc_load_thesaurus accepting agrovoc_graph (Path ''a.rdf'')
       ''agrovoc'' True ''AGROVOC'' ''my text'' ''en'' True world0)))
     = [(''c_2'', ''en''), (''c_2'', ''fr''), (''c_3'', ''en'')]
   \<and> label_pairs (db (snd (gemet_load_thesaurus accepting gemet_graph (Path ''g.rdf'')
       ''gemet'' ''en'' True False world0)))
     = [(''g_2'', ''en''), (''g_2'', ''de'')]
   \<and> label_pairs (db (snd (gemet_load_thesaurus accepting gemet_graph (Path ''g.rdf'')
       ''gemet'' ''en'' True True world0)))
     = [(''g_2'', ''en''), (''g_2'', ''de''), (''g_2'', ''fr'')]
   \<and> set (label_pairs (db (snd (agrovoc_load_thesaurus accepting agrovoc_graph (Path ''a.rdf'')
       ''agrovoc'' True ''AGROVOC'' ''my text'' ''en'' True world0))))
     \<noteq> set (label_pairs (db (snd (agrovoc_load_thesaurus accepting agrovoc_graph (Path ''a.rdf'')
       ''agrovoc'' True ''AGROVOC'' ''my text'' ''en'' False world0))))"
proof -
  have a: "label_pairs (db (snd (agrovoc_load_thesaurus accepting agrovoc_graph (Path ''a.rdf'')
       ''agrovoc'' True ''AGROVOC'' ''my text'' ''en'' False world0)))
     = [(''c_2'', ''en''), (''c_3'', ''en'')]"
    by code_simp
  have b: "label_pairs (db (snd (agrovoc_load_thesaurus accepting agrovoc_graph (Path ''a.rdf'')
       ''agrovoc'' True ''AGROVOC'' ''my text'' ''en'' True world0)))
     = [(''c_2'', ''en''), (''c_2'', ''fr''), (''c_3'', ''en'')]"
    by code_simp
  have c: "label_pairs (db (snd (gemet_load_thesaurus accepting gemet_graph (Path ''g.rdf'')
       ''gemet'' ''en'' True False world0)))
     = [(''g_2'', ''en''), (''g_2'', ''de'')]"
    by code_simp
  have d: "label_pairs (db (snd (gemet_load_thesaurus accepting gemet_graph (Path ''g.rdf'')
       ''gemet'' ''en'' True True world0)))
     = [(''g_2'', ''en''), (''g_2'', ''de''), (''g_2'', ''fr'')]"
    by code_simp
  have "(''c_2'', ''fr'') \<in> set [(''c_2'', ''en''), (''c_2'', ''fr''), (''c_3'', ''en'')]"
    by simp
  moreover have "(''c_2'', ''fr'') \<notin> set [(''c_2'', ''en''), (''c_3'', ''en'')]"
    by simp
  ultimately have e: "set [(''c_2'', ''en''), (''c_2'', ''fr''), (''c_3'', ''en'')]
      \<noteq> set [(''c_2'', ''en''), (''c_3'', ''en'')]"
    by metis
  show ?thesis unfolding a b c d using e by simp
qed

end
